theory Spec2Isabelle
  imports Complex_Main "HOL-Library.Multiset" "HOL-Library.Char_ord" "HOL-Library.List_Lexorder"
begin

section \<open>The Python runtime the inspector relies on\<close>

text \<open>
  The inspector is one Python module, \<^verbatim>\<open>oci_oke_node_inspector.py\<close>. Its functions are
  embedded as HOL functions; an exception is a value \<open>Inl e\<close> of a sum type. The
  exceptions are those of the interpreter that the code can meet, and \<^verbatim>\<open>ApiException\<close>
  for a call of the cluster API that fails.

  Strings are lists of characters, a character standing for the code point of the same
  number (U+0000 to U+00FF). Python integers are unbounded, so they are \<open>int\<close>; the
  interpreter's configurable limit on the number of digits that \<^verbatim>\<open>int()\<close> converts is not
  part of the model.
\<close>

datatype py_error = ValueError | ZeroDivisionError | AttributeError | TypeError | ApiException

definition is_digit :: "char \<Rightarrow> bool" where
  "is_digit c = (48 \<le> (of_char c :: nat) \<and> (of_char c :: nat) \<le> 57)"

definition digit_val :: "char \<Rightarrow> int" where
  "digit_val c = int (of_char c) - 48"

text \<open>
  \<^verbatim>\<open>str.strip()\<close> removes the characters for which \<^verbatim>\<open>str.isspace()\<close> holds: below U+0100
  these are U+0009 to U+000D, U+001C to U+0020, U+0085 and U+00A0. \<^verbatim>\<open>int()\<close> skips a
  smaller set around the number: it does not skip U+001C to U+001F.
\<close>

definition str_isspace :: "char \<Rightarrow> bool" where
  "str_isspace c = (let n = (of_char c :: nat)
     in (9 \<le> n \<and> n \<le> 13) \<or> (28 \<le> n \<and> n \<le> 32) \<or> n = 133 \<or> n = 160)"

definition int_isspace :: "char \<Rightarrow> bool" where
  "int_isspace c = (let n = (of_char c :: nat)
     in (9 \<le> n \<and> n \<le> 13) \<or> n = 32 \<or> n = 133 \<or> n = 160)"

definition strip_by :: "(char \<Rightarrow> bool) \<Rightarrow> string \<Rightarrow> string" where
  "strip_by sp s = rev (dropWhile sp (rev (dropWhile sp s)))"

definition strip :: "string \<Rightarrow> string" where
  "strip s = strip_by str_isspace s"

definition endswith :: "string \<Rightarrow> string \<Rightarrow> bool" where
  "endswith s suf = (length suf \<le> length s \<and> drop (length s - length suf) s = suf)"

text \<open>The slice \<^verbatim>\<open>s[:-k]\<close> for \<open>k > 0\<close>; it is empty when \<open>s\<close> has fewer than \<open>k\<close> characters.\<close>

definition drop_last :: "nat \<Rightarrow> string \<Rightarrow> string" where
  "drop_last k s = take (length s - k) s"

text \<open>
  \<^verbatim>\<open>int(s)\<close> in base ten, as the interpreter scans it: whitespace around the number is
  skipped, one sign is read, and then digits are accumulated from left to right. A single
  underscore is allowed between two digits. \<open>prev\<close> is the character read last; the scan
  starts with an underscore there, so that an empty body and a leading underscore are
  rejected like a doubled or trailing one.
\<close>

fun scan_digits :: "char \<Rightarrow> int \<Rightarrow> string \<Rightarrow> py_error + int" where
  "scan_digits prev acc [] = (if prev = CHR ''_'' then Inl ValueError else Inr acc)"
| "scan_digits prev acc (c # cs) =
     (if is_digit c then scan_digits c (acc * 10 + digit_val c) cs
      else if c = CHR ''_'' \<and> prev \<noteq> CHR ''_'' then scan_digits c acc cs
      else Inl ValueError)"

definition py_int :: "string \<Rightarrow> py_error + int" where
  "py_int s =
     (case strip_by int_isspace s of
        [] \<Rightarrow> Inl ValueError
      | c # cs \<Rightarrow>
          if c = CHR ''-'' then
            (case scan_digits CHR ''_'' 0 cs of Inl e \<Rightarrow> Inl e | Inr v \<Rightarrow> Inr (- v))
          else if c = CHR ''+'' then scan_digits CHR ''_'' 0 cs
          else scan_digits CHR ''_'' 0 (c # cs))"

text \<open>
  \<^verbatim>\<open>a / b\<close> on two integers is a float: the quotient rounded to the nearest double, or
  \<^verbatim>\<open>ZeroDivisionError\<close>. A float is modelled by the real number it denotes and the rounding
  is the parameter \<open>rnd\<close> of every function that divides, so whatever is proved holds for
  any rounding. Quotients beyond the range of a double are outside the model.
  \<^verbatim>\<open>x * 100\<close> on a float rounds the product again.
\<close>

definition py_truediv :: "(real \<Rightarrow> real) \<Rightarrow> int \<Rightarrow> int \<Rightarrow> py_error + real" where
  "py_truediv rnd a b =
     (if b = 0 then Inl ZeroDivisionError else Inr (rnd (real_of_int a / real_of_int b)))"

definition py_fmul :: "(real \<Rightarrow> real) \<Rightarrow> real \<Rightarrow> real \<Rightarrow> real" where
  "py_fmul rnd x y = rnd (x * y)"

text \<open>\<^verbatim>\<open>d.get(k, default)\<close> on a dictionary.\<close>

definition dict_get :: "('k \<rightharpoonup> 'v) \<Rightarrow> 'k \<Rightarrow> 'v \<Rightarrow> 'v" where
  "dict_get d k dflt = (case d k of None \<Rightarrow> dflt | Some v \<Rightarrow> v)"

text \<open>
  \<^verbatim>\<open>xs.sort(key=f, reverse=r)\<close>: the keys of all elements are computed first, in order, and
  an exception in \<open>f\<close> ends the call. The sort is stable; with \<^verbatim>\<open>reverse=True\<close> the list
  is reversed, sorted, and reversed again, which keeps elements with equal keys in their
  input order. A stable sort is determined by its input and the order of the keys, so
  insertion sort stands for the interpreter's merge sort.
\<close>

fun decorate :: "('a \<Rightarrow> py_error + 'k) \<Rightarrow> 'a list \<Rightarrow> py_error + ('k \<times> 'a) list" where
  "decorate f [] = Inr []"
| "decorate f (x # xs) =
     (case f x of
        Inl e \<Rightarrow> Inl e
      | Inr k \<Rightarrow> (case decorate f xs of Inl e \<Rightarrow> Inl e | Inr kxs \<Rightarrow> Inr ((k, x) # kxs)))"

definition list_sort ::
  "('a \<Rightarrow> py_error + 'k::linorder) \<Rightarrow> bool \<Rightarrow> 'a list \<Rightarrow> py_error + 'a list" where
  "list_sort f reverse xs =
     (case decorate f xs of
        Inl e \<Rightarrow> Inl e
      | Inr kxs \<Rightarrow>
          Inr (map snd (if reverse then rev (sort_key fst (rev kxs)) else sort_key fst kxs)))"

text \<open>A list comprehension \<^verbatim>\<open>[n for n in xs if p(n)]\<close> whose condition may raise.\<close>

fun filter_raising :: "('a \<Rightarrow> py_error + bool) \<Rightarrow> 'a list \<Rightarrow> py_error + 'a list" where
  "filter_raising p [] = Inr []"
| "filter_raising p (x # xs) =
     (case p x of
        Inl e \<Rightarrow> Inl e
      | Inr b \<Rightarrow>
          (case filter_raising p xs of
             Inl e \<Rightarrow> Inl e
           | Inr ys \<Rightarrow> Inr (if b then x # ys else ys)))"

section \<open>Quantity parsing\<close>

definition parse_cpu :: "string \<Rightarrow> py_error + int" where
  "parse_cpu cpu_str =
     (if endswith cpu_str ''n'' then
        (case py_int (drop_last 1 cpu_str) of Inl e \<Rightarrow> Inl e | Inr v \<Rightarrow> Inr (v div 1000000))
      else if endswith cpu_str ''m'' then py_int (drop_last 1 cpu_str)
      else
        (case py_int cpu_str of Inl e \<Rightarrow> Inl e | Inr v \<Rightarrow> Inr (v * 1000)))"

definition parse_memory :: "string \<Rightarrow> py_error + int" where
  "parse_memory mem_str0 =
     (let mem_str = strip mem_str0 in
      if endswith mem_str ''Ki'' then
        (case py_int (drop_last 2 mem_str) of Inl e \<Rightarrow> Inl e | Inr v \<Rightarrow> Inr (v * 1024))
      else if endswith mem_str ''Mi'' then
        (case py_int (drop_last 2 mem_str) of Inl e \<Rightarrow> Inl e
         | Inr v \<Rightarrow> Inr (v * 1024 * 1024))
      else if endswith mem_str ''Gi'' then
        (case py_int (drop_last 2 mem_str) of Inl e \<Rightarrow> Inl e
         | Inr v \<Rightarrow> Inr (v * 1024 * 1024 * 1024))
      else if endswith mem_str ''K'' then
        (case py_int (drop_last 1 mem_str) of Inl e \<Rightarrow> Inl e | Inr v \<Rightarrow> Inr (v * 1000))
      else if endswith mem_str ''M'' then
        (case py_int (drop_last 1 mem_str) of Inl e \<Rightarrow> Inl e
         | Inr v \<Rightarrow> Inr (v * 1000 * 1000))
      else if endswith mem_str ''G'' then
        (case py_int (drop_last 1 mem_str) of Inl e \<Rightarrow> Inl e
         | Inr v \<Rightarrow> Inr (v * 1000 * 1000 * 1000))
      else py_int mem_str)"

text \<open>
  What the claims about the parsers speak of: a digit string is a non-empty run of the
  digits 0 to 9, and \<open>dec_value\<close> is the number it writes in base ten.
\<close>

definition digit_string :: "string \<Rightarrow> bool" where
  "digit_string d = (d \<noteq> [] \<and> list_all is_digit d)"

definition dec_value :: "string \<Rightarrow> int" where
  "dec_value d = foldl (\<lambda>a c. a * 10 + digit_val c) 0 d"

section \<open>Node records\<close>

text \<open>
  The dataclass \<^verbatim>\<open>NodeMetrics\<close>. A condition is the dictionary with the keys
  \<^verbatim>\<open>type\<close>, \<^verbatim>\<open>status\<close>, \<^verbatim>\<open>reason\<close>, a taint the one with the keys \<^verbatim>\<open>key\<close>, \<^verbatim>\<open>effect\<close>,
  \<^verbatim>\<open>value\<close>; each has exactly these keys, so it is a record.
\<close>

record condition_dict =
  cond_type :: string
  cond_status :: string
  cond_reason :: string

record taint_dict =
  taint_key :: string
  taint_effect :: string
  taint_value :: string

record NodeMetrics =
  name :: string
  cpu_usage :: int
  cpu_capacity :: int
  memory_usage :: int
  memory_capacity :: int
  pod_count :: int
  pod_capacity :: int
  status :: string
  labels :: "string \<rightharpoonup> string"
  conditions :: "condition_dict list"
  taints :: "taint_dict list"

text \<open>
  What the cluster API hands over for one node: the attributes of the node object that
  \<^verbatim>\<open>get_node_metrics\<close> reads. The client sets an attribute that the server left out to
  \<^verbatim>\<open>None\<close>: the labels, the capacity and allocatable maps, the conditions and the taints
  may all be \<^verbatim>\<open>None\<close>, as may the reason of a condition and the value of a taint. The
  code guards the labels, the taints, the reason and the value with \<^verbatim>\<open>or\<close>; it reads the
  capacity map, the allocatable map and the conditions unguarded.
\<close>

record api_condition =
  c_type :: string
  c_status :: string
  c_reason :: "string option"

record api_taint =
  t_key :: string
  t_effect :: string
  t_value :: "string option"

record api_node =
  metadata_name :: string
  metadata_labels :: "(string \<rightharpoonup> string) option"
  status_capacity :: "(string \<rightharpoonup> string) option"
  status_allocatable :: "(string \<rightharpoonup> string) option"
  status_conditions :: "api_condition list option"
  spec_taints :: "api_taint list option"

text \<open>\<^verbatim>\<open>x or ''\<close> on an optional string: \<^verbatim>\<open>None\<close> and the empty string both give \<^verbatim>\<open>''\<close>.\<close>

definition or_empty :: "string option \<Rightarrow> string" where
  "or_empty x = (case x of None \<Rightarrow> [] | Some v \<Rightarrow> v)"

text \<open>
  The metrics map of \<^verbatim>\<open>get_node_metrics\<close>: the usage dictionary of each metrics item
  under the item's node name, a later item replacing an earlier one of the same name;
  the empty map when the metrics call raised (\<open>None\<close>), since the exception is caught.
\<close>

definition metrics_map_of ::
  "(string \<times> (string \<rightharpoonup> string)) list option \<Rightarrow> (string \<rightharpoonup> (string \<rightharpoonup> string))" where
  "metrics_map_of listed =
     (case listed of None \<Rightarrow> Map.empty | Some items \<Rightarrow> map_of (rev items))"

text \<open>
  The body of the loop of \<^verbatim>\<open>get_node_metrics\<close> for one node, statement by statement.
  \<open>pods_on\<close> is the pod listing for a node name: the number of pods it returns, or the
  exception of the API call. \<^verbatim>\<open>.get\<close> on \<^verbatim>\<open>None\<close> raises \<^verbatim>\<open>AttributeError\<close>, and
  iterating over \<^verbatim>\<open>None\<close> raises \<^verbatim>\<open>TypeError\<close>.
\<close>

definition node_metrics_of ::
  "(string \<rightharpoonup> (string \<rightharpoonup> string)) \<Rightarrow> (string \<Rightarrow> py_error + nat) \<Rightarrow> api_node
    \<Rightarrow> py_error + NodeMetrics" where
  "node_metrics_of metrics_map pods_on node =
     (let nm = metadata_name node in
      case status_capacity node of
        None \<Rightarrow> Inl AttributeError
      | Some capacity \<Rightarrow>
      (case py_int (dict_get capacity ''cpu'' ''0'') of
        Inl e \<Rightarrow> Inl e
      | Inr cpu_cap \<Rightarrow>
      (case parse_memory (dict_get capacity ''memory'' ''0'') of
        Inl e \<Rightarrow> Inl e
      | Inr mem_cap \<Rightarrow>
      (case status_allocatable node of
        None \<Rightarrow> Inl AttributeError
      | Some allocatable \<Rightarrow>
      (case py_int (dict_get allocatable ''pods'' ''0'') of
        Inl e \<Rightarrow> Inl e
      | Inr pod_cap \<Rightarrow>
      (case (case metrics_map nm of
               Some m \<Rightarrow>
                 (case parse_cpu (dict_get m ''cpu'' ''0'') of
                    Inl e \<Rightarrow> Inl e
                  | Inr cu \<Rightarrow>
                      (case parse_memory (dict_get m ''memory'' ''0'') of
                         Inl e \<Rightarrow> Inl e
                       | Inr mu \<Rightarrow> Inr (cu, mu)))
             | None \<Rightarrow> Inr (0, 0)) of
        Inl e \<Rightarrow> Inl e
      | Inr (cpu_use, mem_use) \<Rightarrow>
      (case pods_on nm of
        Inl e \<Rightarrow> Inl e
      | Inr pods \<Rightarrow>
      (case status_conditions node of
        None \<Rightarrow> Inl TypeError
      | Some conds \<Rightarrow>
          Inr \<lparr> name = nm,
                cpu_usage = cpu_use,
                cpu_capacity = cpu_cap * 1000,
                memory_usage = mem_use,
                memory_capacity = mem_cap,
                pod_count = int pods,
                pod_capacity = pod_cap,
                status =
                  (if list_ex (\<lambda>c. c_type c = ''Ready'' \<and> c_status c = ''True'') conds
                   then ''Ready'' else ''NotReady''),
                labels = (case metadata_labels node of None \<Rightarrow> Map.empty | Some l \<Rightarrow> l),
                conditions =
                  map (\<lambda>c. \<lparr> cond_type = c_type c, cond_status = c_status c,
                              cond_reason = or_empty (c_reason c) \<rparr>)
                    conds,
                taints =
                  map (\<lambda>t. \<lparr> taint_key = t_key t, taint_effect = t_effect t,
                              taint_value = or_empty (t_value t) \<rparr>)
                    (case spec_taints node of None \<Rightarrow> [] | Some ts \<Rightarrow> ts) \<rparr>))))))))"

fun collect_nodes ::
  "(string \<rightharpoonup> (string \<rightharpoonup> string)) \<Rightarrow> (string \<Rightarrow> py_error + nat) \<Rightarrow> api_node list
    \<Rightarrow> py_error + NodeMetrics list" where
  "collect_nodes metrics_map pods_on [] = Inr []"
| "collect_nodes metrics_map pods_on (node # rest) =
     (case node_metrics_of metrics_map pods_on node of
        Inl e \<Rightarrow> Inl e
      | Inr r \<Rightarrow>
          (case collect_nodes metrics_map pods_on rest of
             Inl e \<Rightarrow> Inl e
           | Inr rs \<Rightarrow> Inr (r # rs)))"

text \<open>
  \<^verbatim>\<open>get_node_metrics\<close>. \<open>list_node\<close> is what the node listing gives, the nodes or the
  exception of the API call; \<open>listed\<close> is what the metrics listing gives, the pairs of node
  name and usage dictionary, or \<open>None\<close> when it raised.
\<close>

definition get_node_metrics ::
  "py_error + api_node list \<Rightarrow> (string \<times> (string \<rightharpoonup> string)) list option
    \<Rightarrow> (string \<Rightarrow> py_error + nat) \<Rightarrow> py_error + NodeMetrics list" where
  "get_node_metrics list_node listed pods_on =
     (case list_node of
        Inl e \<Rightarrow> Inl e
      | Inr nodes \<Rightarrow> collect_nodes (metrics_map_of listed) pods_on nodes)"

section \<open>Usage bands\<close>

definition get_color_for_usage :: "real \<Rightarrow> string" where
  "get_color_for_usage percent =
     (if percent \<ge> 90 then ''red''
      else if percent \<ge> 75 then ''yellow''
      else if percent \<ge> 50 then ''cyan''
      else ''green'')"

text \<open>
  The specification names the four results as bands: red is Critical, yellow is High,
  cyan is Medium and green is Low, ordered by severity.
\<close>

datatype UsageBand = Low | Medium | High | Critical

definition band_of_color :: "string \<Rightarrow> UsageBand option" where
  "band_of_color c =
     (if c = ''red'' then Some Critical
      else if c = ''yellow'' then Some High
      else if c = ''cyan'' then Some Medium
      else if c = ''green'' then Some Low
      else None)"

definition classify :: "real \<Rightarrow> UsageBand option" where
  "classify r = band_of_color (get_color_for_usage r)"

fun band_rank :: "UsageBand \<Rightarrow> nat" where
  "band_rank Low = 0"
| "band_rank Medium = 1"
| "band_rank High = 2"
| "band_rank Critical = 3"

section \<open>Ratios of one node\<close>

text \<open>The three percentages that \<^verbatim>\<open>print_node_details\<close> computes before it renders.\<close>

definition node_cpu_percent :: "(real \<Rightarrow> real) \<Rightarrow> NodeMetrics \<Rightarrow> py_error + real" where
  "node_cpu_percent rnd node =
     (if cpu_capacity node > 0 then
        (case py_truediv rnd (cpu_usage node) (cpu_capacity node) of
           Inl e \<Rightarrow> Inl e | Inr q \<Rightarrow> Inr (py_fmul rnd q 100))
      else Inr 0)"

definition node_mem_percent :: "(real \<Rightarrow> real) \<Rightarrow> NodeMetrics \<Rightarrow> py_error + real" where
  "node_mem_percent rnd node =
     (if memory_capacity node > 0 then
        (case py_truediv rnd (memory_usage node) (memory_capacity node) of
           Inl e \<Rightarrow> Inl e | Inr q \<Rightarrow> Inr (py_fmul rnd q 100))
      else Inr 0)"

definition node_pod_percent :: "(real \<Rightarrow> real) \<Rightarrow> NodeMetrics \<Rightarrow> py_error + real" where
  "node_pod_percent rnd node =
     (if pod_capacity node > 0 then
        (case py_truediv rnd (pod_count node) (pod_capacity node) of
           Inl e \<Rightarrow> Inl e | Inr q \<Rightarrow> Inr (py_fmul rnd q 100))
      else Inr 0)"

section \<open>Cluster summary\<close>

text \<open>The values that \<^verbatim>\<open>print_summary\<close> computes from the node list before it renders.\<close>

record ClusterSummary =
  total_nodes :: int
  ready_nodes :: int
  total_cpu_usage :: int
  total_cpu_capacity :: int
  total_mem_usage :: int
  total_mem_capacity :: int
  total_pods :: int
  tainted_nodes :: int
  cpu_percent :: real
  mem_percent :: real

definition print_summary :: "(real \<Rightarrow> real) \<Rightarrow> NodeMetrics list \<Rightarrow> py_error + ClusterSummary" where
  "print_summary rnd nodes =
     (let tn = int (length nodes);
          rn = sum_list (map (\<lambda>n. 1) (filter (\<lambda>n. status n = ''Ready'') nodes));
          tcu = sum_list (map cpu_usage nodes);
          tcc = sum_list (map cpu_capacity nodes);
          tmu = sum_list (map memory_usage nodes);
          tmc = sum_list (map memory_capacity nodes);
          tp = sum_list (map pod_count nodes);
          tt = sum_list (map (\<lambda>n. 1) (filter (\<lambda>n. taints n \<noteq> []) nodes))
      in
      case (if tcc > 0 then
              (case py_truediv rnd tcu tcc of Inl e \<Rightarrow> Inl e | Inr q \<Rightarrow> Inr (py_fmul rnd q 100))
            else Inr 0) of
        Inl e \<Rightarrow> Inl e
      | Inr cp \<Rightarrow>
      (case (if tmc > 0 then
               (case py_truediv rnd tmu tmc of Inl e \<Rightarrow> Inl e | Inr q \<Rightarrow> Inr (py_fmul rnd q 100))
             else Inr 0) of
        Inl e \<Rightarrow> Inl e
      | Inr mp \<Rightarrow>
          Inr \<lparr> total_nodes = tn, ready_nodes = rn,
                total_cpu_usage = tcu, total_cpu_capacity = tcc,
                total_mem_usage = tmu, total_mem_capacity = tmc,
                total_pods = tp, tainted_nodes = tt,
                cpu_percent = cp, mem_percent = mp \<rparr>))"

section \<open>Filtering and sorting in \<^verbatim>\<open>main\<close>\<close>

text \<open>
  The condition of the high-usage filter. \<^verbatim>\<open>or\<close> does not evaluate its second operand
  when the first is true.
\<close>

definition high_usage :: "(real \<Rightarrow> real) \<Rightarrow> NodeMetrics \<Rightarrow> py_error + bool" where
  "high_usage rnd n =
     (case (if cpu_capacity n > 0 then
              (case py_truediv rnd (cpu_usage n) (cpu_capacity n) of
                 Inl e \<Rightarrow> Inl e | Inr q \<Rightarrow> Inr (py_fmul rnd q 100 > 75))
            else Inr False) of
        Inl e \<Rightarrow> Inl e
      | Inr True \<Rightarrow> Inr True
      | Inr False \<Rightarrow>
          (if memory_capacity n > 0 then
             (case py_truediv rnd (memory_usage n) (memory_capacity n) of
                Inl e \<Rightarrow> Inl e | Inr q \<Rightarrow> Inr (py_fmul rnd q 100 > 75))
           else Inr False))"

text \<open>The four sort keys.\<close>

definition cpu_key :: "(real \<Rightarrow> real) \<Rightarrow> NodeMetrics \<Rightarrow> py_error + real" where
  "cpu_key rnd n =
     (if cpu_capacity n > 0 then py_truediv rnd (cpu_usage n) (cpu_capacity n) else Inr 0)"

definition memory_key :: "(real \<Rightarrow> real) \<Rightarrow> NodeMetrics \<Rightarrow> py_error + real" where
  "memory_key rnd n =
     (if memory_capacity n > 0 then py_truediv rnd (memory_usage n) (memory_capacity n)
      else Inr 0)"

definition pods_key :: "(real \<Rightarrow> real) \<Rightarrow> NodeMetrics \<Rightarrow> py_error + real" where
  "pods_key rnd n =
     (if pod_capacity n > 0 then py_truediv rnd (pod_count n) (pod_capacity n) else Inr 0)"

definition name_key :: "NodeMetrics \<Rightarrow> py_error + string" where
  "name_key n = Inr (name n)"

text \<open>
  Lines 282 to 297 of \<^verbatim>\<open>main\<close>: the two optional filters, then the sort chosen by
  \<^verbatim>\<open>--sort-by\<close>, on the records that \<^verbatim>\<open>get_node_metrics\<close> returned.
\<close>

definition main_filter_sort ::
  "(real \<Rightarrow> real) \<Rightarrow> bool \<Rightarrow> bool \<Rightarrow> string \<Rightarrow> NodeMetrics list \<Rightarrow> py_error + NodeMetrics list" where
  "main_filter_sort rnd filter_tainted filter_high_usage sort_by nodes0 =
     (let nodes1 = (if filter_tainted then filter (\<lambda>n. taints n \<noteq> []) nodes0 else nodes0) in
      case (if filter_high_usage then filter_raising (high_usage rnd) nodes1 else Inr nodes1) of
        Inl e \<Rightarrow> Inl e
      | Inr nodes2 \<Rightarrow>
          (if sort_by = ''cpu'' then list_sort (cpu_key rnd) True nodes2
           else if sort_by = ''memory'' then list_sort (memory_key rnd) True nodes2
           else if sort_by = ''pods'' then list_sort (pods_key rnd) True nodes2
           else list_sort name_key False nodes2))"


section \<open>Notions the claims are stated with\<close>

text \<open>
  The result of a stable sort: \<open>out\<close> has the elements of \<open>inp\<close>, its keys are in order,
  and the elements that share a key with an element of \<open>inp\<close> come in the order they
  have in \<open>inp\<close>.
\<close>

definition stable_ascending :: "('a \<Rightarrow> 'k::linorder) \<Rightarrow> 'a list \<Rightarrow> 'a list \<Rightarrow> bool" where
  "stable_ascending k inp out =
     (mset out = mset inp \<and> sorted_wrt (\<lambda>a b. k a \<le> k b) out \<and>
      (\<forall>x \<in> set inp. filter (\<lambda>y. k y = k x) out = filter (\<lambda>y. k y = k x) inp))"

definition stable_descending :: "('a \<Rightarrow> 'k::linorder) \<Rightarrow> 'a list \<Rightarrow> 'a list \<Rightarrow> bool" where
  "stable_descending k inp out =
     (mset out = mset inp \<and> sorted_wrt (\<lambda>a b. k a \<ge> k b) out \<and>
      (\<forall>x \<in> set inp. filter (\<lambda>y. k y = k x) out = filter (\<lambda>y. k y = k x) inp))"

text \<open>The records that the filters of \<^verbatim>\<open>main\<close> keep, as a total predicate.\<close>

definition selected :: "(real \<Rightarrow> real) \<Rightarrow> bool \<Rightarrow> bool \<Rightarrow> NodeMetrics \<Rightarrow> bool" where
  "selected rnd filter_tainted filter_high_usage n =
     ((filter_tainted \<longrightarrow> taints n \<noteq> []) \<and>
      (filter_high_usage \<longrightarrow> high_usage rnd n = Inr True))"




text \<open>
  The strings that \<^verbatim>\<open>int()\<close> converts, described by their shape: inside the surrounding
  whitespace, an optional sign and then groups of digits, two groups separated by exactly
  one underscore.
\<close>

definition digit_groups :: "string \<Rightarrow> bool" where
  "digit_groups b =
     (b \<noteq> [] \<and> list_all (\<lambda>c. is_digit c \<or> c = CHR ''_'') b \<and>
      hd b \<noteq> CHR ''_'' \<and> last b \<noteq> CHR ''_'' \<and>
      list_all (\<lambda>(x, y). \<not> (x = CHR ''_'' \<and> y = CHR ''_'')) (zip b (tl b)))"

definition int_syntax :: "string \<Rightarrow> bool" where
  "int_syntax s =
     (case strip_by int_isspace s of
        [] \<Rightarrow> False
      | c # cs \<Rightarrow>
          if c = CHR ''-'' \<or> c = CHR ''+'' then digit_groups cs else digit_groups (c # cs))"



text \<open>
  A node descriptor that \<^verbatim>\<open>get_node_metrics\<close> can read: the capacity map, the
  allocatable map and the conditions are there, the three capacity strings parse, and the
  pod listing for the node returned.
\<close>

definition readable :: "(string \<Rightarrow> py_error + nat) \<Rightarrow> api_node \<Rightarrow> bool" where
  "readable pods_on node =
     (case (status_capacity node, status_allocatable node, status_conditions node) of
        (Some capacity, Some allocatable, Some conds) \<Rightarrow>
          \<not> isl (py_int (dict_get capacity ''cpu'' ''0'')) \<and>
          \<not> isl (parse_memory (dict_get capacity ''memory'' ''0'')) \<and>
          \<not> isl (py_int (dict_get allocatable ''pods'' ''0'')) \<and>
          \<not> isl (pods_on (metadata_name node))
      | _ \<Rightarrow> False)"

text \<open>
  A record whose capacity, pod, status, label, condition and taint fields are those of a
  node descriptor: the CPU capacity is the whole cores of the descriptor times 1000, the
  memory and pod capacities are its parsed quantities, the pod count is the length of the
  pod listing, the status is Ready exactly when some condition has type Ready and status
  True, and the conditions and taints are the descriptor's, in its order, a missing reason
  or value being the empty string.
\<close>

definition built_from_descriptor ::
  "(string \<Rightarrow> py_error + nat) \<Rightarrow> api_node \<Rightarrow> NodeMetrics \<Rightarrow> bool" where
  "built_from_descriptor pods_on node r =
     (name r = metadata_name node \<and>
      (case status_capacity node of
         None \<Rightarrow> False
       | Some capacity \<Rightarrow>
           (case py_int (dict_get capacity ''cpu'' ''0'') of
              Inl _ \<Rightarrow> False | Inr cores \<Rightarrow> cpu_capacity r = cores * 1000) \<and>
           parse_memory (dict_get capacity ''memory'' ''0'') = Inr (memory_capacity r)) \<and>
      (case status_allocatable node of
         None \<Rightarrow> False
       | Some allocatable \<Rightarrow>
           py_int (dict_get allocatable ''pods'' ''0'') = Inr (pod_capacity r)) \<and>
      (case pods_on (metadata_name node) of
         Inl _ \<Rightarrow> False | Inr pods \<Rightarrow> pod_count r = int pods) \<and>
      (case status_conditions node of
         None \<Rightarrow> False
       | Some conds \<Rightarrow>
           (status r = ''Ready'' \<or> status r = ''NotReady'') \<and>
           (status r = ''Ready'') =
             (\<exists>c \<in> set conds. c_type c = ''Ready'' \<and> c_status c = ''True'') \<and>
           map cond_type (conditions r) = map c_type conds \<and>
           map cond_status (conditions r) = map c_status conds \<and>
           map cond_reason (conditions r) =
             map (\<lambda>c. case c_reason c of None \<Rightarrow> [] | Some v \<Rightarrow> v) conds) \<and>
      labels r = (case metadata_labels node of None \<Rightarrow> Map.empty | Some l \<Rightarrow> l) \<and>
      (case spec_taints node of
         None \<Rightarrow> taints r = []
       | Some ts \<Rightarrow>
           map taint_key (taints r) = map t_key ts \<and>
           map taint_effect (taints r) = map t_effect ts \<and>
           map taint_value (taints r) =
             map (\<lambda>t. case t_value t of None \<Rightarrow> [] | Some v \<Rightarrow> v) ts))"

section \<open>Example data\<close>

text \<open>
  The three nodes of the end-to-end scenario of the specification, a node that reports no
  capacity, and the descriptor of a node for which no metrics sample exists.
\<close>

definition node_a :: NodeMetrics where
  "node_a = \<lparr> name = ''node-a'', cpu_usage = 900, cpu_capacity = 1000,
              memory_usage = 2147483648, memory_capacity = 4294967296,
              pod_count = 10, pod_capacity = 110, status = ''Ready'',
              labels = Map.empty, conditions = [], taints = [] \<rparr>"

definition node_b :: NodeMetrics where
  "node_b = \<lparr> name = ''node-b'', cpu_usage = 100, cpu_capacity = 2000,
              memory_usage = 1073741824, memory_capacity = 4294967296,
              pod_count = 3, pod_capacity = 110, status = ''Ready'',
              labels = Map.empty, conditions = [],
              taints = [\<lparr> taint_key = ''dedicated'', taint_effect = ''NoSchedule'',
                          taint_value = ''gpu'' \<rparr>] \<rparr>"

definition node_c :: NodeMetrics where
  "node_c = \<lparr> name = ''node-c'', cpu_usage = 0, cpu_capacity = 1000,
              memory_usage = 0, memory_capacity = 4294967296,
              pod_count = 0, pod_capacity = 110, status = ''NotReady'',
              labels = Map.empty,
              conditions = [\<lparr> cond_type = ''Ready'', cond_status = ''False'',
                              cond_reason = [] \<rparr>],
              taints = [] \<rparr>"

definition node_registering :: NodeMetrics where
  "node_registering = \<lparr> name = ''node-r'', cpu_usage = 5, cpu_capacity = 0,
              memory_usage = 7, memory_capacity = 0,
              pod_count = 1, pod_capacity = 0, status = ''NotReady'',
              labels = Map.empty, conditions = [], taints = [] \<rparr>"

definition api_node_c :: api_node where
  "api_node_c = \<lparr> metadata_name = ''node-c'', metadata_labels = None,
              status_capacity = Some [''cpu'' \<mapsto> ''1'', ''memory'' \<mapsto> ''4194304Ki''],
              status_allocatable = Some [''pods'' \<mapsto> ''110''],
              status_conditions =
                Some [\<lparr> c_type = ''Ready'', c_status = ''False'', c_reason = None \<rparr>],
              spec_taints = None \<rparr>"

text \<open>
  A node with labels, with a condition that carries a reason, and with two taints, one
  with a value and one without; the record that is built for it when it has seven pods
  and no metrics sample; and a node whose CPU capacity is given in millicores.
\<close>

definition api_node_d :: api_node where
  "api_node_d = \<lparr> metadata_name = ''node-d'',
              metadata_labels = Some [''pool'' \<mapsto> ''gpu''],
              status_capacity = Some [''cpu'' \<mapsto> ''8'', ''memory'' \<mapsto> ''32Gi''],
              status_allocatable = Some [''pods'' \<mapsto> ''31''],
              status_conditions =
                Some [\<lparr> c_type = ''MemoryPressure'', c_status = ''False'',
                         c_reason = Some ''KubeletHasSufficientMemory'' \<rparr>,
                      \<lparr> c_type = ''Ready'', c_status = ''True'',
                         c_reason = Some ''KubeletReady'' \<rparr>],
              spec_taints =
                Some [\<lparr> t_key = ''dedicated'', t_effect = ''NoSchedule'', t_value = Some ''gpu'' \<rparr>,
                      \<lparr> t_key = ''spot'', t_effect = ''PreferNoSchedule'', t_value = None \<rparr>] \<rparr>"

definition node_d :: NodeMetrics where
  "node_d = \<lparr> name = ''node-d'', cpu_usage = 0, cpu_capacity = 8000,
              memory_usage = 0, memory_capacity = 34359738368,
              pod_count = 7, pod_capacity = 31, status = ''Ready'',
              labels = [''pool'' \<mapsto> ''gpu''],
              conditions =
                [\<lparr> cond_type = ''MemoryPressure'', cond_status = ''False'',
                    cond_reason = ''KubeletHasSufficientMemory'' \<rparr>,
                 \<lparr> cond_type = ''Ready'', cond_status = ''True'',
                    cond_reason = ''KubeletReady'' \<rparr>],
              taints =
                [\<lparr> taint_key = ''dedicated'', taint_effect = ''NoSchedule'',
                    taint_value = ''gpu'' \<rparr>,
                 \<lparr> taint_key = ''spot'', taint_effect = ''PreferNoSchedule'',
                    taint_value = [] \<rparr>] \<rparr>"

definition api_node_millicores :: api_node where
  "api_node_millicores = \<lparr> metadata_name = ''node-m'', metadata_labels = None,
              status_capacity = Some [''cpu'' \<mapsto> ''3920m'', ''memory'' \<mapsto> ''16Gi''],
              status_allocatable = Some [''pods'' \<mapsto> ''110''],
              status_conditions =
                Some [\<lparr> c_type = ''Ready'', c_status = ''True'', c_reason = None \<rparr>],
              spec_taints = None \<rparr>"

text \<open>
  A metrics listing with a sample for node-a only, and a pod listing that returns seven
  pods for node-d and none for any other node.
\<close>

definition metrics_example :: "(string \<times> (string \<rightharpoonup> string)) list option" where
  "metrics_example = Some [(''node-a'', [''cpu'' \<mapsto> ''900m'', ''memory'' \<mapsto> ''2Gi''])]"

definition pods_example :: "string \<Rightarrow> py_error + nat" where
  "pods_example nm = Inr (if nm = ''node-d'' then 7 else 0)"

section \<open>Integer conversion of digit strings\<close>

lemma dec_value_snoc: "dec_value (d @ [c]) = dec_value d * 10 + digit_val c"
  by (simp add: dec_value_def)

lemma is_digit_not_underscore: "is_digit c \<Longrightarrow> c \<noteq> CHR ''_''"
  by (auto simp: is_digit_def)

lemma scan_digits_all:
  "list_all is_digit d \<Longrightarrow> prev \<noteq> CHR ''_'' \<Longrightarrow>
   scan_digits prev acc d = Inr (foldl (\<lambda>a c. a * 10 + digit_val c) acc d)"
  by (induction d arbitrary: prev acc) (auto simp: is_digit_not_underscore)

lemma scan_digits_digit_string:
  "digit_string d \<Longrightarrow> scan_digits CHR ''_'' 0 d = Inr (dec_value d)"
  by (cases d) (auto simp: digit_string_def dec_value_def scan_digits_all is_digit_not_underscore)

lemma dropWhile_keep: "s \<noteq> [] \<Longrightarrow> \<not> sp (hd s) \<Longrightarrow> dropWhile sp s = s"
  by (cases s) auto

lemma strip_by_id:
  "s \<noteq> [] \<Longrightarrow> \<not> sp (hd s) \<Longrightarrow> \<not> sp (last s) \<Longrightarrow> strip_by sp s = s"
  by (simp add: strip_by_def dropWhile_keep hd_rev)

lemma is_digit_not_int_space: "is_digit c \<Longrightarrow> \<not> int_isspace c"
  by (auto simp: is_digit_def int_isspace_def Let_def)

lemma is_digit_not_str_space: "is_digit c \<Longrightarrow> \<not> str_isspace c"
  by (auto simp: is_digit_def str_isspace_def Let_def)

lemma digit_string_ends:
  "digit_string d \<Longrightarrow> d \<noteq> [] \<and> is_digit (hd d) \<and> is_digit (last d)"
  by (cases d) (auto simp: digit_string_def list_all_iff)

lemma py_int_digit_string:
  assumes d: "digit_string d" shows "py_int d = Inr (dec_value d)"
proof -
  from d have e: "d \<noteq> []" "is_digit (hd d)" "is_digit (last d)"
    using digit_string_ends by blast+
  then have s: "strip_by int_isspace d = d"
    by (simp add: strip_by_id is_digit_not_int_space)
  obtain c cs where dc: "d = c # cs" using e(1) by (cases d) auto
  with e(2) have "c \<noteq> CHR ''-''" "c \<noteq> CHR ''+''"
    by (auto simp: is_digit_def)
  with s dc scan_digits_digit_string [OF d] show ?thesis
    by (simp add: py_int_def)
qed

lemma py_int_minus_digit_string:
  assumes d: "digit_string d" shows "py_int (CHR ''-'' # d) = Inr (- dec_value d)"
proof -
  from d have e: "d \<noteq> []" "is_digit (last d)"
    using digit_string_ends by blast+
  have m: "\<not> int_isspace CHR ''-''"
    by (simp add: int_isspace_def)
  from e have "\<not> int_isspace (last (CHR ''-'' # d))"
    by (simp add: is_digit_not_int_space)
  with m have "strip_by int_isspace (CHR ''-'' # d) = CHR ''-'' # d"
    by (intro strip_by_id) simp_all
  with scan_digits_digit_string [OF d] show ?thesis
    by (simp add: py_int_def)
qed

section \<open>Suffix tests\<close>

lemma endswith_append: "endswith (d @ suf) suf"
  by (simp add: endswith_def)

lemma endswith_lastD: "endswith s suf \<Longrightarrow> suf \<noteq> [] \<Longrightarrow> last s = last suf"
  by (metis endswith_def append_take_drop_id last_appendR)

lemma digit_last_no_suffix:
  "is_digit (last s) \<Longrightarrow> suf \<noteq> [] \<Longrightarrow> \<not> is_digit (last suf) \<Longrightarrow> \<not> endswith s suf"
  using endswith_lastD by fastforce

lemma other_last_no_suffix:
  "suf \<noteq> [] \<Longrightarrow> last suf \<noteq> c \<Longrightarrow> \<not> endswith (d @ [c]) suf"
  using endswith_lastD by fastforce

lemma drop_last_append: "drop_last (length suf) (d @ suf) = d"
  by (simp add: drop_last_def)

lemma strip_digits_suffix:
  assumes d: "digit_string d" and s: "suf = [] \<or> \<not> str_isspace (last suf)"
  shows "strip (d @ suf) = d @ suf"
proof -
  from d have e: "d \<noteq> []" "is_digit (hd d)" "is_digit (last d)"
    using digit_string_ends by blast+
  then have "\<not> str_isspace (hd (d @ suf))" "\<not> str_isspace (last (d @ suf))"
    using s by (cases "suf = []"; simp add: is_digit_not_str_space)+
  with e(1) show ?thesis
    unfolding strip_def by (intro strip_by_id) simp_all
qed

section \<open>The CPU parser on digit strings\<close>

lemma parse_cpu_n:
  assumes d: "digit_string d" shows "parse_cpu (d @ ''n'') = Inr (dec_value d div 1000000)"
  using py_int_digit_string [OF d] drop_last_append [of "''n''" d]
  by (simp add: parse_cpu_def endswith_append)

lemma parse_cpu_m:
  assumes d: "digit_string d" shows "parse_cpu (d @ ''m'') = Inr (dec_value d)"
  using py_int_digit_string [OF d] drop_last_append [of "''m''" d]
    other_last_no_suffix [of "''n''" "CHR ''m''" d]
  by (simp add: parse_cpu_def endswith_append)

lemma parse_cpu_bare:
  assumes d: "digit_string d" shows "parse_cpu d = Inr (dec_value d * 1000)"
proof -
  have l: "is_digit (last d)" using digit_string_ends [OF d] by simp
  have "\<not> endswith d ''n''" "\<not> endswith d ''m''"
    by (rule digit_last_no_suffix [OF l]; simp add: is_digit_def)+
  then show ?thesis
    using py_int_digit_string [OF d] by (simp add: parse_cpu_def)
qed

lemma parse_cpu_minus_m:
  assumes d: "digit_string d" shows "parse_cpu (CHR ''-'' # d @ ''m'') = Inr (- dec_value d)"
  using py_int_minus_digit_string [OF d] drop_last_append [of "''m''" "CHR ''-'' # d"]
    other_last_no_suffix [of "''n''" "CHR ''m''" "CHR ''-'' # d"]
    endswith_append [of "CHR ''-'' # d" "''m''"]
  by (simp add: parse_cpu_def)

section \<open>The memory parser on digit strings\<close>

lemma parse_memory_stripped:
  "strip s = s \<Longrightarrow> parse_memory s =
      (if endswith s ''Ki'' then
        (case py_int (drop_last 2 s) of Inl e \<Rightarrow> Inl e | Inr v \<Rightarrow> Inr (v * 1024))
      else if endswith s ''Mi'' then
        (case py_int (drop_last 2 s) of Inl e \<Rightarrow> Inl e
         | Inr v \<Rightarrow> Inr (v * 1024 * 1024))
      else if endswith s ''Gi'' then
        (case py_int (drop_last 2 s) of Inl e \<Rightarrow> Inl e
         | Inr v \<Rightarrow> Inr (v * 1024 * 1024 * 1024))
      else if endswith s ''K'' then
        (case py_int (drop_last 1 s) of Inl e \<Rightarrow> Inl e | Inr v \<Rightarrow> Inr (v * 1000))
      else if endswith s ''M'' then
        (case py_int (drop_last 1 s) of Inl e \<Rightarrow> Inl e
         | Inr v \<Rightarrow> Inr (v * 1000 * 1000))
      else if endswith s ''G'' then
        (case py_int (drop_last 1 s) of Inl e \<Rightarrow> Inl e
         | Inr v \<Rightarrow> Inr (v * 1000 * 1000 * 1000))
      else py_int s)"
  by (simp add: parse_memory_def Let_def)

lemma endswith_two:
  "endswith (d @ [a, b]) [x, y] = (a = x \<and> b = y)"
  by (auto simp: endswith_def)

lemma endswith_one_two:
  "endswith (d @ [a, b]) [y] = (b = y)"
  by (auto simp: endswith_def)

lemma endswith_one_one:
  "endswith (d @ [b]) [y] = (b = y)"
  by (auto simp: endswith_def)

lemma endswith_two_one:
  "endswith (d @ [b]) [x, y] \<Longrightarrow> b = y"
  using endswith_lastD by fastforce

lemma parse_memory_binary:
  assumes d: "digit_string d"
  shows "parse_memory (d @ ''Ki'') = Inr (dec_value d * 1024)"
    and "parse_memory (d @ ''Mi'') = Inr (dec_value d * 1024 * 1024)"
    and "parse_memory (d @ ''Gi'') = Inr (dec_value d * 1024 * 1024 * 1024)"
proof -
  have s: "strip (d @ [a, CHR ''i'']) = d @ [a, CHR ''i'']" for a
    using strip_digits_suffix [OF d, of "[a, CHR ''i'']"] by (simp add: str_isspace_def)
  have dl: "drop_last 2 (d @ [a, b]) = d" for a b
    by (simp add: drop_last_def)
  show "parse_memory (d @ ''Ki'') = Inr (dec_value d * 1024)"
    by (simp add: parse_memory_stripped [OF s] endswith_two dl py_int_digit_string [OF d])
  show "parse_memory (d @ ''Mi'') = Inr (dec_value d * 1024 * 1024)"
    by (simp add: parse_memory_stripped [OF s] endswith_two dl py_int_digit_string [OF d])
  show "parse_memory (d @ ''Gi'') = Inr (dec_value d * 1024 * 1024 * 1024)"
    by (simp add: parse_memory_stripped [OF s] endswith_two dl py_int_digit_string [OF d])
qed

lemma parse_memory_decimal:
  assumes d: "digit_string d"
  shows "parse_memory (d @ ''K'') = Inr (dec_value d * 1000)"
    and "parse_memory (d @ ''M'') = Inr (dec_value d * 1000 * 1000)"
    and "parse_memory (d @ ''G'') = Inr (dec_value d * 1000 * 1000 * 1000)"
proof -
  have s: "strip (d @ [a]) = d @ [a]" if "\<not> str_isspace a" for a
    using strip_digits_suffix [OF d, of "[a]"] that by simp
  have dl: "drop_last (Suc 0) (d @ [a]) = d" for a
    by (simp add: drop_last_def)
  have n2: "\<not> endswith (d @ [b]) [x, CHR ''i'']" if "b \<noteq> CHR ''i''" for b x
    using endswith_two_one that by blast
  have sK: "strip (d @ ''K'') = d @ ''K''" by (rule s) (simp add: str_isspace_def)
  have sM: "strip (d @ ''M'') = d @ ''M''" by (rule s) (simp add: str_isspace_def)
  have sG: "strip (d @ ''G'') = d @ ''G''" by (rule s) (simp add: str_isspace_def)
  show "parse_memory (d @ ''K'') = Inr (dec_value d * 1000)"
    by (simp add: parse_memory_stripped [OF sK] n2 endswith_one_one dl py_int_digit_string [OF d])
  show "parse_memory (d @ ''M'') = Inr (dec_value d * 1000 * 1000)"
    by (simp add: parse_memory_stripped [OF sM] n2 endswith_one_one dl py_int_digit_string [OF d])
  show "parse_memory (d @ ''G'') = Inr (dec_value d * 1000 * 1000 * 1000)"
    by (simp add: parse_memory_stripped [OF sG] n2 endswith_one_one dl py_int_digit_string [OF d])
qed

lemma parse_memory_bare:
  assumes d: "digit_string d" shows "parse_memory d = Inr (dec_value d)"
proof -
  have l: "is_digit (last d)" using digit_string_ends [OF d] by simp
  have s: "strip d = d" using strip_digits_suffix [OF d, of "[]"] by simp
  have "\<not> endswith d ''Ki''" "\<not> endswith d ''Mi''" "\<not> endswith d ''Gi''"
       "\<not> endswith d ''K''" "\<not> endswith d ''M''" "\<not> endswith d ''G''"
    by (rule digit_last_no_suffix [OF l]; simp add: is_digit_def)+
  then show ?thesis
    using py_int_digit_string [OF d] by (simp add: parse_memory_stripped [OF s])
qed

lemma parse_memory_minus_Ki:
  assumes d: "digit_string d"
  shows "parse_memory (CHR ''-'' # d @ ''Ki'') = Inr (- dec_value d * 1024)"
proof -
  have "strip_by str_isspace (CHR ''-'' # d @ ''Ki'') = CHR ''-'' # d @ ''Ki''"
    by (intro strip_by_id) (simp_all add: str_isspace_def)
  then have s: "strip ((CHR ''-'' # d) @ ''Ki'') = (CHR ''-'' # d) @ ''Ki''"
    by (simp add: strip_def)
  have dl: "drop_last 2 ((CHR ''-'' # d) @ ''Ki'') = CHR ''-'' # d"
    by (simp add: drop_last_def)
  show ?thesis
    using parse_memory_stripped [OF s] endswith_append [of "CHR ''-'' # d" "''Ki''"] dl
      py_int_minus_digit_string [OF d]
    by simp
qed

section \<open>Claims about the parsers\<close>

text \<open>
  C1: \<^verbatim>\<open>parse_memory\<close> maps each recognised suffix to its multiplier. For every digit
  string \<open>d\<close>, \<open>d\<close> followed by Ki, Mi, Gi gives the value of \<open>d\<close> times 1024, 1024 squared,
  1024 cubed; followed by K, M, G it gives the value times 1000, 1000 squared, 1000 cubed;
  \<open>d\<close> alone gives the value in bytes. The two-letter suffixes are tested before the
  one-letter ones. The fixtures: 1Ki is 1024, 2Gi is 2147483648, 1000M is 1000000000 and
  1000000 is 1000000.
\<close>

theorem parse_memory_suffix_multipliers:
  "digit_string d \<Longrightarrow>
     parse_memory (d @ ''Ki'') = Inr (dec_value d * 1024) \<and>
     parse_memory (d @ ''Mi'') = Inr (dec_value d * 1024 ^ 2) \<and>
     parse_memory (d @ ''Gi'') = Inr (dec_value d * 1024 ^ 3) \<and>
     parse_memory (d @ ''K'') = Inr (dec_value d * 1000) \<and>
     parse_memory (d @ ''M'') = Inr (dec_value d * 1000 ^ 2) \<and>
     parse_memory (d @ ''G'') = Inr (dec_value d * 1000 ^ 3) \<and>
     parse_memory d = Inr (dec_value d) \<and>
     parse_memory ''1Ki'' = Inr 1024 \<and>
     parse_memory ''2Gi'' = Inr 2147483648 \<and>
     parse_memory ''1000M'' = Inr 1000000000 \<and>
     parse_memory ''1000000'' = Inr 1000000"
proof -
  assume d: "digit_string d"
  have f1: "parse_memory ''1Ki'' = Inr 1024" by code_simp
  have f2: "parse_memory ''2Gi'' = Inr 2147483648" by code_simp
  have f3: "parse_memory ''1000M'' = Inr 1000000000" by code_simp
  have f4: "parse_memory ''1000000'' = Inr 1000000" by code_simp
  show ?thesis
    using parse_memory_binary [OF d] parse_memory_decimal [OF d] parse_memory_bare [OF d]
      f1 f2 f3 f4
    by (simp add: power2_eq_square power3_eq_cube mult.assoc)
qed

theorem parse_memory_suffix_multipliers_witness:
  "digit_string ''12'' \<and>
   parse_memory ''12Ki'' = Inr 12288 \<and>
   parse_memory ''12Mi'' = Inr 12582912 \<and>
   parse_memory ''12Gi'' = Inr 12884901888 \<and>
   parse_memory ''12K'' = Inr 12000 \<and>
   parse_memory ''12M'' = Inr 12000000 \<and>
   parse_memory ''12G'' = Inr 12000000000 \<and>
   parse_memory ''12'' = Inr 12 \<and>
   parse_memory ''1Ki'' = Inr 1024 \<and>
   parse_memory ''2Gi'' = Inr 2147483648 \<and>
   parse_memory ''1000M'' = Inr 1000000000 \<and>
   parse_memory ''1000000'' = Inr 1000000"
  using parse_memory_suffix_multipliers [of "''12''"]
  by (simp add: digit_string_def is_digit_def dec_value_def digit_val_def)

text \<open>
  C2: \<^verbatim>\<open>parse_cpu\<close> tests the suffix n first and the suffix m second. For every digit
  string \<open>d\<close>, \<open>d\<close> followed by n gives the value of \<open>d\<close> divided by 1000000, rounded down;
  followed by m it gives the value itself; \<open>d\<close> alone gives the value times 1000. The
  fixtures: 500m is 500, 2 is 2000 and 250000000n is 250.
\<close>

theorem parse_cpu_units:
  "digit_string d \<Longrightarrow>
     parse_cpu (d @ ''n'') = Inr (dec_value d div 1000000) \<and>
     parse_cpu (d @ ''m'') = Inr (dec_value d) \<and>
     parse_cpu d = Inr (dec_value d * 1000) \<and>
     parse_cpu ''500m'' = Inr 500 \<and>
     parse_cpu ''2'' = Inr 2000 \<and>
     parse_cpu ''250000000n'' = Inr 250"
proof -
  assume d: "digit_string d"
  have f1: "parse_cpu ''500m'' = Inr 500" by code_simp
  have f2: "parse_cpu ''2'' = Inr 2000" by code_simp
  have f3: "parse_cpu ''250000000n'' = Inr 250" by code_simp
  show ?thesis
    using parse_cpu_n [OF d] parse_cpu_m [OF d] parse_cpu_bare [OF d] f1 f2 f3 by simp
qed

theorem parse_cpu_units_witness:
  "digit_string ''1999999'' \<and>
   parse_cpu ''1999999n'' = Inr 1 \<and>
   parse_cpu ''1999999m'' = Inr 1999999 \<and>
   parse_cpu ''1999999'' = Inr 1999999000 \<and>
   parse_cpu ''500m'' = Inr 500 \<and>
   parse_cpu ''2'' = Inr 2000 \<and>
   parse_cpu ''250000000n'' = Inr 250"
  using parse_cpu_units [of "''1999999''"]
  by (simp add: digit_string_def is_digit_def dec_value_def digit_val_def)

text \<open>
  C10: the parsers accept a leading minus sign. For every digit string \<open>d\<close>,
  \<^verbatim>\<open>parse_cpu\<close> of a minus sign, \<open>d\<close> and m is the negated value of \<open>d\<close>, and
  \<^verbatim>\<open>parse_memory\<close> of a minus sign, \<open>d\<close> and Ki is the negated value times 1024: the
  parsers do not keep their results non-negative.
\<close>

theorem parsers_accept_minus_sign:
  "digit_string d \<Longrightarrow>
     parse_cpu (''-'' @ d @ ''m'') = Inr (- dec_value d) \<and>
     parse_memory (''-'' @ d @ ''Ki'') = Inr (- dec_value d * 1024)"
  using parse_cpu_minus_m [of d] parse_memory_minus_Ki [of d] by simp

theorem parsers_accept_minus_sign_witness:
  "digit_string ''5'' \<and> parse_cpu ''-5m'' = Inr (- 5) \<and> parse_memory ''-5Ki'' = Inr (- 5120)"
  using parsers_accept_minus_sign [of "''5''"]
  by (simp add: digit_string_def is_digit_def dec_value_def digit_val_def)

section \<open>Ratios and sums\<close>


lemma node_percent_zero:
  "cpu_capacity n = 0 \<Longrightarrow> node_cpu_percent rnd n = Inr 0"
  "memory_capacity n = 0 \<Longrightarrow> node_mem_percent rnd n = Inr 0"
  "pod_capacity n = 0 \<Longrightarrow> node_pod_percent rnd n = Inr 0"
  by (simp_all add: node_cpu_percent_def node_mem_percent_def node_pod_percent_def)

lemma py_truediv_pos: "0 < b \<Longrightarrow> py_truediv rnd a b = Inr (rnd (real_of_int a / real_of_int b))"
  by (simp add: py_truediv_def)

lemma node_percent_total:
  "\<exists>r. node_cpu_percent rnd n = Inr r"
  "\<exists>r. node_mem_percent rnd n = Inr r"
  "\<exists>r. node_pod_percent rnd n = Inr r"
  by (simp_all add: node_cpu_percent_def node_mem_percent_def node_pod_percent_def py_truediv_pos)

lemma key_zero:
  "cpu_capacity n = 0 \<Longrightarrow> cpu_key rnd n = Inr 0"
  "memory_capacity n = 0 \<Longrightarrow> memory_key rnd n = Inr 0"
  "pod_capacity n = 0 \<Longrightarrow> pods_key rnd n = Inr 0"
  by (simp_all add: cpu_key_def memory_key_def pods_key_def)

lemma key_total:
  "\<exists>r. cpu_key rnd n = Inr r"
  "\<exists>r. memory_key rnd n = Inr r"
  "\<exists>r. pods_key rnd n = Inr r"
  by (simp_all add: cpu_key_def memory_key_def pods_key_def py_truediv_pos)

lemma high_usage_total: "\<exists>b. high_usage rnd n = Inr b"
  by (auto simp: high_usage_def py_truediv_pos split: bool.splits)

lemma high_usage_zero:
  "cpu_capacity n = 0 \<Longrightarrow> memory_capacity n = 0 \<Longrightarrow> high_usage rnd n = Inr False"
  by (simp add: high_usage_def)

lemma high_usage_cpu_zero:
  "cpu_capacity n = 0 \<Longrightarrow> high_usage rnd n =
     (if memory_capacity n > 0
      then Inr (py_fmul rnd (rnd (real_of_int (memory_usage n) / real_of_int (memory_capacity n))) 100 > 75)
      else Inr False)"
  by (simp add: high_usage_def py_truediv_pos)

lemma high_usage_mem_zero:
  "memory_capacity n = 0 \<Longrightarrow> high_usage rnd n =
     (if cpu_capacity n > 0
      then Inr (py_fmul rnd (rnd (real_of_int (cpu_usage n) / real_of_int (cpu_capacity n))) 100 > 75)
      else Inr False)"
  by (simp add: high_usage_def py_truediv_pos split: bool.splits)

lemma print_summary_total: "\<exists>s. print_summary rnd ns = Inr s"
  by (simp add: print_summary_def Let_def py_truediv_pos)

lemma print_summary_zero:
  "sum_list (map cpu_capacity ns) = 0 \<Longrightarrow> \<exists>s. print_summary rnd ns = Inr s \<and> cpu_percent s = 0"
  "sum_list (map memory_capacity ns) = 0 \<Longrightarrow> \<exists>s. print_summary rnd ns = Inr s \<and> mem_percent s = 0"
  by (simp_all add: print_summary_def Let_def py_truediv_pos)


lemma mset_sum_list_filter:
  fixes f :: "'a \<Rightarrow> 'b::comm_monoid_add"
  shows "mset xs = mset ys \<Longrightarrow>
   sum_list (map f (filter P xs)) = sum_list (map f (filter P ys))"
proof -
  assume e: "mset xs = mset ys"
  have "sum_list (map f (filter P zs)) = sum_mset (image_mset f (filter_mset P (mset zs)))"
    for zs :: "'a list"
    by (metis mset_filter mset_map sum_mset_sum_list)
  with e show ?thesis by simp
qed

lemma mset_sum_list_map:
  fixes f :: "'a \<Rightarrow> 'b::comm_monoid_add"
  shows "mset xs = mset ys \<Longrightarrow> sum_list (map f xs) = sum_list (map f ys)"
  using mset_sum_list_filter [of xs ys f "\<lambda>_. True"] by simp

lemma print_summary_mset:
  assumes e: "mset xs = mset ys"
  shows "print_summary rnd xs = print_summary rnd ys"
proof -
  have l: "length xs = length ys"
    using e by (rule mset_eq_length)
  show ?thesis
    unfolding print_summary_def l
      mset_sum_list_filter [OF e, of "\<lambda>n. 1" "\<lambda>n. status n = ''Ready''"]
      mset_sum_list_filter [OF e, of "\<lambda>n. 1" "\<lambda>n. taints n \<noteq> []"]
      mset_sum_list_map [OF e, of cpu_usage] mset_sum_list_map [OF e, of cpu_capacity]
      mset_sum_list_map [OF e, of memory_usage] mset_sum_list_map [OF e, of memory_capacity]
      mset_sum_list_map [OF e, of pod_count]
    by (rule refl)
qed

section \<open>Claims about bands, ratios and the summary\<close>

text \<open>
  C5: \<^verbatim>\<open>classify\<close> maps a percentage to a band, each band including its lower bound:
  at least 90 is Critical, from 75 up to but not including 90 is High, from 50 up to but
  not including 75 is Medium, below 50 is Low. 90.0 is Critical and 89.999 is High, and a
  larger percentage never gets a less severe band. The percentage is the real number that
  the float denotes; the double nearest to 89.999 also lies between 75 and 90.
\<close>

theorem classify_bands:
  "(r \<ge> 90 \<longrightarrow> classify r = Some Critical) \<and>
   (75 \<le> r \<and> r < 90 \<longrightarrow> classify r = Some High) \<and>
   (50 \<le> r \<and> r < 75 \<longrightarrow> classify r = Some Medium) \<and>
   (r < 50 \<longrightarrow> classify r = Some Low) \<and>
   classify 90.0 = Some Critical \<and>
   classify 89.999 = Some High \<and>
   (r \<le> s \<longrightarrow>
      (\<exists>b c. classify r = Some b \<and> classify s = Some c \<and> band_rank b \<le> band_rank c))"
  by (auto simp: classify_def get_color_for_usage_def band_of_color_def)

theorem classify_bands_witness:
  "classify 95 = Some Critical \<and> classify 80 = Some High \<and> classify 60 = Some Medium \<and>
   classify 10 = Some Low \<and> classify 75 = Some High \<and> classify 50 = Some Medium \<and>
   band_rank Medium \<le> band_rank Critical"
  using classify_bands [of 95 95] classify_bands [of 80 80] classify_bands [of 60 95]
    classify_bands [of 10 10] classify_bands [of 75 75] classify_bands [of 50 50]
  by simp

text \<open>
  C3: with a capacity of zero every ratio is 0 and nothing fails with a division by zero.
  For a node whose CPU, memory or pod capacity is 0, the percentage shown for the node and
  the sort key are 0, and the zero-capacity side of the high-usage filter is false, so the
  filter is decided by the other side alone; for a list whose summed capacity is 0, the
  percentage of the summary is 0. For every node and list, whatever the capacities, none
  of these computations fails with a division by zero.
\<close>

theorem zero_capacity_ratio_is_zero:
  "(cpu_capacity n = 0 \<longrightarrow> node_cpu_percent rnd n = Inr 0 \<and> cpu_key rnd n = Inr 0) \<and>
   (memory_capacity n = 0 \<longrightarrow> node_mem_percent rnd n = Inr 0 \<and> memory_key rnd n = Inr 0) \<and>
   (pod_capacity n = 0 \<longrightarrow> node_pod_percent rnd n = Inr 0 \<and> pods_key rnd n = Inr 0) \<and>
   (cpu_capacity n = 0 \<and> memory_capacity n = 0 \<longrightarrow> high_usage rnd n = Inr False) \<and>
   (cpu_capacity n = 0 \<and> memory_capacity n > 0 \<longrightarrow>
      high_usage rnd n =
        Inr (py_fmul rnd (rnd (real_of_int (memory_usage n) / real_of_int (memory_capacity n))) 100
               > 75)) \<and>
   (memory_capacity n = 0 \<and> cpu_capacity n > 0 \<longrightarrow>
      high_usage rnd n =
        Inr (py_fmul rnd (rnd (real_of_int (cpu_usage n) / real_of_int (cpu_capacity n))) 100
               > 75)) \<and>
   (sum_list (map cpu_capacity ns) = 0 \<longrightarrow>
      (\<exists>s. print_summary rnd ns = Inr s \<and> cpu_percent s = 0)) \<and>
   (sum_list (map memory_capacity ns) = 0 \<longrightarrow>
      (\<exists>s. print_summary rnd ns = Inr s \<and> mem_percent s = 0)) \<and>
   node_cpu_percent rnd n \<noteq> Inl ZeroDivisionError \<and>
   node_mem_percent rnd n \<noteq> Inl ZeroDivisionError \<and>
   node_pod_percent rnd n \<noteq> Inl ZeroDivisionError \<and>
   high_usage rnd n \<noteq> Inl ZeroDivisionError \<and>
   cpu_key rnd n \<noteq> Inl ZeroDivisionError \<and>
   memory_key rnd n \<noteq> Inl ZeroDivisionError \<and>
   pods_key rnd n \<noteq> Inl ZeroDivisionError \<and>
   print_summary rnd ns \<noteq> Inl ZeroDivisionError"
proof -
  have t: "node_cpu_percent rnd n \<noteq> Inl ZeroDivisionError"
    "node_mem_percent rnd n \<noteq> Inl ZeroDivisionError"
    "node_pod_percent rnd n \<noteq> Inl ZeroDivisionError"
    "high_usage rnd n \<noteq> Inl ZeroDivisionError"
    "cpu_key rnd n \<noteq> Inl ZeroDivisionError"
    "memory_key rnd n \<noteq> Inl ZeroDivisionError"
    "pods_key rnd n \<noteq> Inl ZeroDivisionError"
    "print_summary rnd ns \<noteq> Inl ZeroDivisionError"
    using node_percent_total [of rnd n] key_total [of rnd n] high_usage_total [of rnd n]
      print_summary_total [of rnd ns]
    by auto
  show ?thesis
    using node_percent_zero [of n rnd] key_zero [of n rnd] high_usage_zero [of n rnd]
      high_usage_cpu_zero [of n rnd] high_usage_mem_zero [of n rnd]
      print_summary_zero [of ns rnd] t
    by simp
qed

theorem zero_capacity_ratio_is_zero_witness:
  "cpu_capacity node_registering = 0 \<and> memory_capacity node_registering = 0 \<and>
   pod_capacity node_registering = 0 \<and>
   sum_list (map cpu_capacity [node_registering]) = 0 \<and>
   sum_list (map memory_capacity [node_registering]) = 0 \<and>
   node_cpu_percent (\<lambda>x. x) node_registering = Inr 0 \<and>
   node_mem_percent (\<lambda>x. x) node_registering = Inr 0 \<and>
   node_pod_percent (\<lambda>x. x) node_registering = Inr 0 \<and>
   cpu_key (\<lambda>x. x) node_registering = Inr 0 \<and>
   memory_key (\<lambda>x. x) node_registering = Inr 0 \<and>
   pods_key (\<lambda>x. x) node_registering = Inr 0 \<and>
   high_usage (\<lambda>x. x) node_registering = Inr False \<and>
   (\<exists>s. print_summary (\<lambda>x. x) [node_registering] = Inr s \<and> cpu_percent s = 0) \<and>
   (\<exists>s. print_summary (\<lambda>x. x) [node_registering] = Inr s \<and> mem_percent s = 0) \<and>
   cpu_capacity (node_a\<lparr>cpu_capacity := 0\<rparr>) = 0 \<and>
   memory_capacity (node_a\<lparr>cpu_capacity := 0\<rparr>) > 0 \<and>
   high_usage (\<lambda>x. x) (node_a\<lparr>cpu_capacity := 0\<rparr>) = Inr False \<and>
   memory_capacity (node_a\<lparr>memory_capacity := 0\<rparr>) = 0 \<and>
   cpu_capacity (node_a\<lparr>memory_capacity := 0\<rparr>) > 0 \<and>
   high_usage (\<lambda>x. x) (node_a\<lparr>memory_capacity := 0\<rparr>) = Inr True"
proof -
  have h: "cpu_capacity node_registering = 0" "memory_capacity node_registering = 0"
    "pod_capacity node_registering = 0"
    by (simp_all add: node_registering_def)
  have a: "cpu_capacity (node_a\<lparr>cpu_capacity := 0\<rparr>) = 0"
    "memory_capacity (node_a\<lparr>cpu_capacity := 0\<rparr>) = 4294967296"
    "memory_usage (node_a\<lparr>cpu_capacity := 0\<rparr>) = 2147483648"
    "memory_capacity (node_a\<lparr>memory_capacity := 0\<rparr>) = 0"
    "cpu_capacity (node_a\<lparr>memory_capacity := 0\<rparr>) = 1000"
    "cpu_usage (node_a\<lparr>memory_capacity := 0\<rparr>) = 900"
    by (simp_all add: node_a_def)
  show ?thesis
    using h a
      zero_capacity_ratio_is_zero [of node_registering "\<lambda>x. x" "[node_registering]"]
      zero_capacity_ratio_is_zero [of "node_a\<lparr>cpu_capacity := 0\<rparr>" "\<lambda>x. x" "[]"]
      zero_capacity_ratio_is_zero [of "node_a\<lparr>memory_capacity := 0\<rparr>" "\<lambda>x. x" "[]"]
    by (simp add: py_fmul_def)
qed

text \<open>
  C6: \<^verbatim>\<open>print_summary\<close> computes the same summary for a list of records and for every
  permutation of it: the counts, the sums and the two percentages are equal.
\<close>

theorem print_summary_order_invariant:
  "mset xs = mset ys \<Longrightarrow> print_summary rnd xs = print_summary rnd ys"
  by (rule print_summary_mset)

theorem print_summary_order_invariant_witness:
  "mset [node_a, node_b, node_c] = mset [node_c, node_a, node_b] \<and>
   print_summary (\<lambda>x. x) [node_a, node_b, node_c] = print_summary (\<lambda>x. x) [node_c, node_a, node_b]"
proof -
  have m: "mset [node_a, node_b, node_c] = mset [node_c, node_a, node_b]"
    by (simp add: add_mset_commute)
  show ?thesis
    using m print_summary_order_invariant [OF m] by simp
qed

section \<open>Sorting and filtering with keys that return\<close>

lemma decorate_total:
  "(\<And>x. f x = Inr (k x)) \<Longrightarrow> decorate f xs = Inr (map (\<lambda>x. (k x, x)) xs)"
  by (induction xs) simp_all

lemma filter_raising_total:
  "(\<And>x. p x = Inr (q x)) \<Longrightarrow> filter_raising p xs = Inr (filter q xs)"
  by (induction xs) simp_all

lemma insort_key_decorated:
  "insort_key fst (k x, x) (map (\<lambda>x. (k x, x)) ys) = map (\<lambda>x. (k x, x)) (insort_key k x ys)"
  by (induction ys) simp_all

lemma sort_key_decorated:
  "sort_key fst (map (\<lambda>x. (k x, x)) xs) = map (\<lambda>x. (k x, x)) (sort_key k xs)"
  by (induction xs) (simp_all add: insort_key_decorated)

lemma list_sort_total:
  assumes f: "\<And>x. f x = Inr (k x)"
  shows "list_sort f reverse xs =
           Inr (if reverse then rev (sort_key k (rev xs)) else sort_key k xs)"
proof -
  have "map snd (map (\<lambda>x. (k x, x)) ys) = ys" for ys :: "'a list"
    by (simp add: comp_def)
  then show ?thesis
    by (simp add: list_sort_def decorate_total [of f k, OF f] rev_map sort_key_decorated)
qed

lemma stable_ascending_sort_key: "stable_ascending k xs (sort_key k xs)"
proof -
  have "sorted_wrt (\<lambda>a b. k a \<le> k b) (sort_key k xs)"
    using sorted_sort_key [of k xs] by (simp add: sorted_map)
  then show ?thesis
    unfolding stable_ascending_def by (simp add: sort_key_stable)
qed

lemma stable_descending_rev_sort_key: "stable_descending k xs (rev (sort_key k (rev xs)))"
proof -
  have "sorted_wrt (\<lambda>a b. k b \<le> k a) (rev (sort_key k (rev xs)))"
    using sorted_sort_key [of k "rev xs"] by (simp add: sorted_wrt_rev sorted_map)
  moreover have "filter (\<lambda>y. k y = v) (rev (sort_key k (rev xs))) = filter (\<lambda>y. k y = v) xs" for v
    by (simp add: sort_key_stable flip: rev_filter)
  ultimately show ?thesis
    unfolding stable_descending_def by simp
qed

lemma key_values:
  "cpu_key rnd n = Inr (projr (cpu_key rnd n))"
  "memory_key rnd n = Inr (projr (memory_key rnd n))"
  "pods_key rnd n = Inr (projr (pods_key rnd n))"
  "name_key n = Inr (name n)"
  by (simp_all add: cpu_key_def memory_key_def pods_key_def name_key_def py_truediv_def)

lemma high_usage_value: "high_usage rnd n = Inr (high_usage rnd n = Inr True)"
  by (auto simp: high_usage_def py_truediv_def split: bool.splits)

lemma filters_select:
  "(if fh then filter_raising (high_usage rnd)
       (if ft then filter (\<lambda>n. taints n \<noteq> []) nodes else nodes)
    else Inr (if ft then filter (\<lambda>n. taints n \<noteq> []) nodes else nodes))
   = Inr (filter (selected rnd ft fh) nodes)"
proof -
  have "filter_raising (high_usage rnd) xs = Inr (filter (\<lambda>n. high_usage rnd n = Inr True) xs)"
    for xs
    by (rule filter_raising_total) (rule high_usage_value)
  then show ?thesis
    by (simp add: selected_def [abs_def] conj_commute)
qed

lemma main_filter_sort_value:
  "main_filter_sort rnd ft fh sort_by nodes =
     Inr (let sel = filter (selected rnd ft fh) nodes in
          if sort_by = ''cpu'' then rev (sort_key (\<lambda>n. projr (cpu_key rnd n)) (rev sel))
          else if sort_by = ''memory'' then rev (sort_key (\<lambda>n. projr (memory_key rnd n)) (rev sel))
          else if sort_by = ''pods'' then rev (sort_key (\<lambda>n. projr (pods_key rnd n)) (rev sel))
          else sort_key name sel)"
  unfolding main_filter_sort_def Let_def filters_select
  by (simp add: list_sort_total [of "cpu_key rnd" "\<lambda>n. projr (cpu_key rnd n)", OF key_values(1)]
      list_sort_total [of "memory_key rnd" "\<lambda>n. projr (memory_key rnd n)", OF key_values(2)]
      list_sort_total [of "pods_key rnd" "\<lambda>n. projr (pods_key rnd n)", OF key_values(3)]
      list_sort_total [of name_key name, OF key_values(4)])

section \<open>Claim about the filter and sort pipeline\<close>

text \<open>
  C7: in \<^verbatim>\<open>main\<close> the filters run before the sort. The call returns the records that the
  filters keep, ordered by the one key that \<^verbatim>\<open>--sort-by\<close> names: by ratio from high to low
  for cpu, memory and pods, by name from low to high in lexicographic order otherwise. The
  sort is stable: records with equal keys keep the order they have in the input. A ratio
  key is 0 when the capacity is 0 and the rounded quotient of usage and capacity when the
  capacity is positive.
\<close>

theorem filter_then_stable_sort:
  "\<exists>out. main_filter_sort rnd ft fh sort_by nodes = Inr out \<and>
     (if sort_by = ''cpu'' then
        stable_descending (\<lambda>n. projr (cpu_key rnd n)) (filter (selected rnd ft fh) nodes) out
      else if sort_by = ''memory'' then
        stable_descending (\<lambda>n. projr (memory_key rnd n)) (filter (selected rnd ft fh) nodes) out
      else if sort_by = ''pods'' then
        stable_descending (\<lambda>n. projr (pods_key rnd n)) (filter (selected rnd ft fh) nodes) out
      else stable_ascending name (filter (selected rnd ft fh) nodes) out) \<and>
     (cpu_capacity n = 0 \<longrightarrow> projr (cpu_key rnd n) = 0) \<and>
     (memory_capacity n = 0 \<longrightarrow> projr (memory_key rnd n) = 0) \<and>
     (pod_capacity n = 0 \<longrightarrow> projr (pods_key rnd n) = 0) \<and>
     (cpu_capacity n > 0 \<longrightarrow>
        projr (cpu_key rnd n) = rnd (real_of_int (cpu_usage n) / real_of_int (cpu_capacity n))) \<and>
     (memory_capacity n > 0 \<longrightarrow>
        projr (memory_key rnd n) =
          rnd (real_of_int (memory_usage n) / real_of_int (memory_capacity n))) \<and>
     (pod_capacity n > 0 \<longrightarrow>
        projr (pods_key rnd n) = rnd (real_of_int (pod_count n) / real_of_int (pod_capacity n)))"
  unfolding main_filter_sort_value
  by (simp add: Let_def stable_ascending_sort_key stable_descending_rev_sort_key
      cpu_key_def memory_key_def pods_key_def py_truediv_def)


lemma scenario_sorted_by_cpu:
  "main_filter_sort (\<lambda>x. x) False False ''cpu'' [node_c, node_b, node_a]
     = Inr [node_a, node_b, node_c]"
  by (simp add: main_filter_sort_def list_sort_def cpu_key_def py_truediv_def
      node_a_def node_b_def node_c_def)

lemma scenario_tainted_by_name:
  "main_filter_sort (\<lambda>x. x) True False ''name'' [node_c, node_b, node_a] = Inr [node_b]"
  by (simp add: main_filter_sort_def list_sort_def name_key_def
      node_a_def node_b_def node_c_def)

lemma scenario_high_usage_by_memory:
  "main_filter_sort (\<lambda>x. x) False True ''memory'' [node_c, node_b, node_a] = Inr [node_a]"
  by (simp add: main_filter_sort_def list_sort_def memory_key_def high_usage_def py_truediv_def
      py_fmul_def node_a_def node_b_def node_c_def)

lemma scenario_ties_by_pods:
  "main_filter_sort (\<lambda>x. x) False False ''pods'' [node_c, node_registering, node_a, node_b]
     = Inr [node_a, node_b, node_c, node_registering]"
  by (simp add: main_filter_sort_def list_sort_def pods_key_def py_truediv_def
      node_a_def node_b_def node_c_def node_registering_def)

lemma scenario_ties_by_pods2:
  "main_filter_sort (\<lambda>x. x) False False ''pods'' [node_registering, node_c, node_a, node_b]
     = Inr [node_a, node_b, node_registering, node_c]"
  by (simp add: main_filter_sort_def list_sort_def pods_key_def py_truediv_def
      node_a_def node_b_def node_c_def node_registering_def)

theorem filter_then_stable_sort_witness:
  "main_filter_sort (\<lambda>x. x) False False ''cpu'' [node_c, node_b, node_a]
     = Inr [node_a, node_b, node_c] \<and>
   stable_descending (\<lambda>n. projr (cpu_key (\<lambda>x. x) n))
     (filter (selected (\<lambda>x. x) False False) [node_c, node_b, node_a]) [node_a, node_b, node_c] \<and>
   main_filter_sort (\<lambda>x. x) True False ''name'' [node_c, node_b, node_a] = Inr [node_b] \<and>
   stable_ascending name
     (filter (selected (\<lambda>x. x) True False) [node_c, node_b, node_a]) [node_b] \<and>
   main_filter_sort (\<lambda>x. x) False True ''memory'' [node_c, node_b, node_a] = Inr [node_a] \<and>
   stable_descending (\<lambda>n. projr (memory_key (\<lambda>x. x) n))
     (filter (selected (\<lambda>x. x) False True) [node_c, node_b, node_a]) [node_a] \<and>
   main_filter_sort (\<lambda>x. x) False False ''pods'' [node_c, node_registering, node_a, node_b]
     = Inr [node_a, node_b, node_c, node_registering] \<and>
   stable_descending (\<lambda>n. projr (pods_key (\<lambda>x. x) n))
     (filter (selected (\<lambda>x. x) False False) [node_c, node_registering, node_a, node_b])
     [node_a, node_b, node_c, node_registering] \<and>
   main_filter_sort (\<lambda>x. x) False False ''pods'' [node_registering, node_c, node_a, node_b]
     = Inr [node_a, node_b, node_registering, node_c] \<and>
   stable_descending (\<lambda>n. projr (pods_key (\<lambda>x. x) n))
     (filter (selected (\<lambda>x. x) False False) [node_registering, node_c, node_a, node_b])
     [node_a, node_b, node_registering, node_c] \<and>
   cpu_capacity node_registering = 0 \<and> memory_capacity node_registering = 0 \<and>
   pod_capacity node_registering = 0 \<and>
   projr (cpu_key (\<lambda>x. x) node_registering) = 0 \<and>
   projr (memory_key (\<lambda>x. x) node_registering) = 0 \<and>
   projr (pods_key (\<lambda>x. x) node_registering) = 0 \<and>
   cpu_capacity node_a > 0 \<and> memory_capacity node_a > 0 \<and> pod_capacity node_a > 0 \<and>
   projr (cpu_key (\<lambda>x. x) node_a) = 9 / 10 \<and>
   projr (memory_key (\<lambda>x. x) node_a) = 1 / 2 \<and>
   projr (pods_key (\<lambda>x. x) node_a) = 1 / 11"
proof -
  have z: "cpu_capacity node_registering = 0" "memory_capacity node_registering = 0"
    "pod_capacity node_registering = 0"
    by (simp_all add: node_registering_def)
  have a: "cpu_capacity node_a = 1000" "memory_capacity node_a = 4294967296"
    "pod_capacity node_a = 110" "cpu_usage node_a = 900" "memory_usage node_a = 2147483648"
    "pod_count node_a = 10"
    by (simp_all add: node_a_def)
  show ?thesis
    using scenario_sorted_by_cpu scenario_tainted_by_name scenario_high_usage_by_memory
      scenario_ties_by_pods scenario_ties_by_pods2 z a
      filter_then_stable_sort
        [of "\<lambda>x. x" False False "''cpu''" "[node_c, node_b, node_a]" node_registering]
      filter_then_stable_sort
        [of "\<lambda>x. x" True False "''name''" "[node_c, node_b, node_a]" node_a]
      filter_then_stable_sort
        [of "\<lambda>x. x" False True "''memory''" "[node_c, node_b, node_a]" node_a]
      filter_then_stable_sort
        [of "\<lambda>x. x" False False "''pods''" "[node_c, node_registering, node_a, node_b]"
           node_a]
      filter_then_stable_sort
        [of "\<lambda>x. x" False False "''pods''" "[node_registering, node_c, node_a, node_b]"
           node_a]
    by simp
qed


section \<open>Claim about nodes without a metrics sample\<close>

lemma metrics_map_of_no_entry:
  "metrics_map_of listed nm = None \<longleftrightarrow>
     (case listed of None \<Rightarrow> True | Some items \<Rightarrow> nm \<notin> fst ` set items)"
  by (simp add: metrics_map_of_def map_of_eq_None_iff split: option.splits)

lemma node_metrics_of_no_entry:
  assumes n: "metrics_map (metadata_name node) = None"
    and r: "node_metrics_of metrics_map pods_on node = Inr r"
  shows "cpu_usage r = 0 \<and> memory_usage r = 0 \<and> built_from_descriptor pods_on node r"
proof -
  obtain capacity cores mem allocatable pod_cap pods conds where
    c: "status_capacity node = Some capacity"
      "py_int (dict_get capacity ''cpu'' ''0'') = Inr cores"
      "parse_memory (dict_get capacity ''memory'' ''0'') = Inr mem"
    and a: "status_allocatable node = Some allocatable"
      "py_int (dict_get allocatable ''pods'' ''0'') = Inr pod_cap"
    and p: "pods_on (metadata_name node) = Inr pods"
    and s: "status_conditions node = Some conds"
    using r n
    by (auto simp: node_metrics_of_def Let_def split: option.splits sum.splits)
  have v: "r = \<lparr> name = metadata_name node, cpu_usage = 0, cpu_capacity = cores * 1000,
      memory_usage = 0, memory_capacity = mem, pod_count = int pods, pod_capacity = pod_cap,
      status = (if list_ex (\<lambda>c. c_type c = ''Ready'' \<and> c_status c = ''True'') conds
                then ''Ready'' else ''NotReady''),
      labels = (case metadata_labels node of None \<Rightarrow> Map.empty | Some l \<Rightarrow> l),
      conditions = map (\<lambda>c. \<lparr> cond_type = c_type c, cond_status = c_status c,
                                 cond_reason = or_empty (c_reason c) \<rparr>) conds,
      taints = map (\<lambda>t. \<lparr> taint_key = t_key t, taint_effect = t_effect t,
                             taint_value = or_empty (t_value t) \<rparr>)
                 (case spec_taints node of None \<Rightarrow> [] | Some ts \<Rightarrow> ts) \<rparr>"
    using r n c a p s by (simp add: node_metrics_of_def Let_def)
  have o: "or_empty = (\<lambda>x. case x of None \<Rightarrow> [] | Some v \<Rightarrow> v)"
    by (rule ext) (simp add: or_empty_def)
  show ?thesis
    unfolding v built_from_descriptor_def
    using c a p s
    by (simp add: o comp_def list_ex_iff split: option.splits)
qed

lemma node_metrics_of_readable:
  assumes n: "metrics_map (metadata_name node) = None" and d: "readable pods_on node"
  shows "\<exists>r. node_metrics_of metrics_map pods_on node = Inr r"
proof -
  from d obtain capacity allocatable conds where
    "status_capacity node = Some capacity" "status_allocatable node = Some allocatable"
    "status_conditions node = Some conds"
    "\<not> isl (py_int (dict_get capacity ''cpu'' ''0''))"
    "\<not> isl (parse_memory (dict_get capacity ''memory'' ''0''))"
    "\<not> isl (py_int (dict_get allocatable ''pods'' ''0''))"
    "\<not> isl (pods_on (metadata_name node))"
    by (auto simp: readable_def split: option.splits)
  with n show ?thesis
    by (auto simp: node_metrics_of_def Let_def isl_def split: sum.splits)
qed

text \<open>
  What the loop body does with a descriptor that it cannot read: a missing capacity or
  allocatable map raises \<^verbatim>\<open>AttributeError\<close>, missing conditions raise \<^verbatim>\<open>TypeError\<close>, and
  an exception of the pod listing is passed on.
\<close>

lemma node_metrics_of_unreadable:
  "status_capacity node = None \<Longrightarrow>
     node_metrics_of metrics_map pods_on node = Inl AttributeError"
  "readable pods_on node \<Longrightarrow> metrics_map (metadata_name node) = None \<Longrightarrow>
     node_metrics_of metrics_map pods_on (node\<lparr>status_allocatable := None\<rparr>)
       = Inl AttributeError"
  "readable pods_on node \<Longrightarrow> metrics_map (metadata_name node) = None \<Longrightarrow>
     node_metrics_of metrics_map pods_on (node\<lparr>status_conditions := None\<rparr>) = Inl TypeError"
  "readable pods_on node \<Longrightarrow> metrics_map (metadata_name node) = None \<Longrightarrow>
     node_metrics_of metrics_map (\<lambda>_. Inl ApiException) node = Inl ApiException"
  by (auto simp: node_metrics_of_def readable_def Let_def isl_def split: option.splits sum.splits)

lemma get_node_metrics_listing_failed:
  "get_node_metrics (Inl e) listed pods_on = Inl e"
  by (simp add: get_node_metrics_def)

lemma collect_nodes_each:
  "collect_nodes metrics_map pods_on nodes = Inr rs \<Longrightarrow>
   list_all2 (\<lambda>node r. node_metrics_of metrics_map pods_on node = Inr r) nodes rs"
  by (induction nodes arbitrary: rs) (auto split: sum.splits)

lemma collect_nodes_returns:
  "(\<forall>node \<in> set nodes. \<exists>r. node_metrics_of metrics_map pods_on node = Inr r) \<Longrightarrow>
   \<exists>rs. collect_nodes metrics_map pods_on nodes = Inr rs"
  by (induction nodes) auto

lemma get_node_metrics_each:
  "get_node_metrics (Inr nodes) listed pods_on = Inr rs \<Longrightarrow>
   list_all2 (\<lambda>node r. node_metrics_of (metrics_map_of listed) pods_on node = Inr r) nodes rs"
  by (simp add: get_node_metrics_def collect_nodes_each)

lemma example_quantities:
  "py_int ''1'' = Inr 1" "parse_memory ''4194304Ki'' = Inr 4294967296"
  "py_int ''110'' = Inr 110" "py_int ''8'' = Inr 8" "parse_memory ''32Gi'' = Inr 34359738368"
  "py_int ''31'' = Inr 31" "py_int ''3920m'' = Inl ValueError"
  by code_simp+

lemma node_c_built:
  "node_metrics_of (metrics_map_of listed) pods_example api_node_c =
     (if metrics_map_of listed ''node-c'' = None then Inr node_c
      else node_metrics_of (metrics_map_of listed) pods_example api_node_c)"
  by (simp add: node_metrics_of_def api_node_c_def node_c_def dict_get_def example_quantities
      pods_example_def or_empty_def)

lemma node_d_built:
  "node_metrics_of (metrics_map_of listed) pods_example api_node_d =
     (if metrics_map_of listed ''node-d'' = None then Inr node_d
      else node_metrics_of (metrics_map_of listed) pods_example api_node_d)"
  by (simp add: node_metrics_of_def api_node_d_def node_d_def dict_get_def example_quantities
      pods_example_def or_empty_def)

lemma node_millicores_fails:
  "node_metrics_of metrics_map pods_on api_node_millicores = Inl ValueError"
  by (simp add: node_metrics_of_def api_node_millicores_def dict_get_def example_quantities)

lemma examples_readable:
  "readable pods_example api_node_c" "readable pods_example api_node_d"
  "\<not> readable pods_example api_node_millicores"
  by (simp_all add: readable_def api_node_c_def api_node_d_def api_node_millicores_def
      dict_get_def example_quantities pods_example_def)

lemma examples_no_entry:
  "metrics_map_of None nm = None"
  "metrics_map_of metrics_example
     ''node-c'' = None"
  "metrics_map_of metrics_example
     ''node-d'' = None"
  by (simp_all add: metrics_map_of_def metrics_example_def)

lemma examples_collected:
  "get_node_metrics (Inr [api_node_c, api_node_d]) None pods_example = Inr [node_c, node_d]"
  "get_node_metrics (Inr [api_node_c, api_node_d])
     metrics_example pods_example
     = Inr [node_c, node_d]"
  "get_node_metrics (Inr [api_node_millicores]) None pods_example = Inl ValueError"
  using node_c_built [of None] node_d_built [of None]
    node_c_built [of metrics_example]
    node_d_built [of metrics_example]
  by (simp_all add: get_node_metrics_def examples_no_entry node_millicores_fails)

text \<open>
  C8, as stated: for every node whose name has no entry in the metrics map, the record is
  built, with a usage of 0, instead of a failure. The node \<open>api_node_millicores\<close> has no
  entry and gives its CPU capacity in millicores, as 3920m. \<^verbatim>\<open>int()\<close> rejects the string,
  so the record is not built and \<^verbatim>\<open>get_node_metrics\<close> raises \<^verbatim>\<open>ValueError\<close>.
\<close>

theorem millicore_capacity_counterexample:
  "metrics_map_of None (metadata_name api_node_millicores) = None \<and>
   node_metrics_of (metrics_map_of None) pods_example api_node_millicores = Inl ValueError \<and>
   get_node_metrics (Inr [api_node_millicores]) None pods_example = Inl ValueError"
  by (simp add: examples_no_entry node_millicores_fails examples_collected)

text \<open>
  C8, amended: a node whose name has no entry in the metrics map and whose descriptor can
  be read (the capacity map, the allocatable map and the conditions are there, the cpu,
  memory and pods strings parse, the pod listing returned) gets a record with a CPU usage
  and a memory usage of 0 and with the capacity, pod, status, label, condition and taint
  fields of the descriptor. Whenever \<^verbatim>\<open>get_node_metrics\<close> returns, its result has one
  record for each node, in the order of the nodes, and the record of every node without
  entry is of this kind. It returns whenever each node is either a readable node without
  entry or a node whose record is built for another reason; so it returns such records
  for all readable nodes when the metrics listing is unreachable.
\<close>

theorem missing_metrics_zero_usage:
  "(metrics_map_of listed (metadata_name node) = None \<and> readable pods_on node \<longrightarrow>
      (\<exists>r. node_metrics_of (metrics_map_of listed) pods_on node = Inr r \<and>
           cpu_usage r = 0 \<and> memory_usage r = 0 \<and> built_from_descriptor pods_on node r)) \<and>
   (get_node_metrics (Inr nodes) listed pods_on = Inr rs \<longrightarrow>
      list_all2
        (\<lambda>node r. metrics_map_of listed (metadata_name node) = None \<longrightarrow>
           cpu_usage r = 0 \<and> memory_usage r = 0 \<and> built_from_descriptor pods_on node r)
        nodes rs) \<and>
   ((\<forall>node \<in> set nodes.
        (metrics_map_of listed (metadata_name node) = None \<and> readable pods_on node) \<or>
        (\<exists>r. node_metrics_of (metrics_map_of listed) pods_on node = Inr r)) \<longrightarrow>
      (\<exists>rs'. get_node_metrics (Inr nodes) listed pods_on = Inr rs' \<and>
         list_all2
           (\<lambda>node r. metrics_map_of listed (metadata_name node) = None \<longrightarrow>
              cpu_usage r = 0 \<and> memory_usage r = 0 \<and> built_from_descriptor pods_on node r)
           nodes rs'))"
proof -
  let ?mm = "metrics_map_of listed"
  let ?P = "\<lambda>node r. ?mm (metadata_name node) = None \<longrightarrow>
              cpu_usage r = 0 \<and> memory_usage r = 0 \<and> built_from_descriptor pods_on node r"
  have each: "list_all2 ?P nodes qs"
    if "get_node_metrics (Inr nodes) listed pods_on = Inr qs" for qs
    using get_node_metrics_each [OF that]
    by (rule list_all2_mono)
      (simp add: node_metrics_of_no_entry [of "metrics_map_of listed" _ pods_on])
  have one: "\<exists>r. node_metrics_of ?mm pods_on node = Inr r \<and>
           cpu_usage r = 0 \<and> memory_usage r = 0 \<and> built_from_descriptor pods_on node r"
    if "?mm (metadata_name node) = None" "readable pods_on node"
    using node_metrics_of_readable [of "metrics_map_of listed" node pods_on]
      node_metrics_of_no_entry [of "metrics_map_of listed" node pods_on] that
    by blast
  have all: "\<exists>rs'. get_node_metrics (Inr nodes) listed pods_on = Inr rs' \<and> list_all2 ?P nodes rs'"
    if h: "\<forall>node \<in> set nodes.
        (?mm (metadata_name node) = None \<and> readable pods_on node) \<or>
        (\<exists>r. node_metrics_of ?mm pods_on node = Inr r)"
  proof -
    have "\<forall>node \<in> set nodes. \<exists>r. node_metrics_of ?mm pods_on node = Inr r"
      using h node_metrics_of_readable [of "metrics_map_of listed" _ pods_on] by blast
    then obtain qs where "get_node_metrics (Inr nodes) listed pods_on = Inr qs"
      using collect_nodes_returns [of nodes ?mm pods_on] by (auto simp: get_node_metrics_def)
    then show ?thesis using each by blast
  qed
  show ?thesis
    using one each all by blast
qed

theorem missing_metrics_zero_usage_witness:
  "metrics_map_of metrics_example (metadata_name api_node_d) = None \<and>
   readable pods_example api_node_d \<and>
   node_metrics_of (metrics_map_of metrics_example) pods_example api_node_d = Inr node_d \<and>
   cpu_usage node_d = 0 \<and> memory_usage node_d = 0 \<and>
   built_from_descriptor pods_example api_node_d node_d \<and>
   get_node_metrics (Inr [api_node_c, api_node_d]) metrics_example pods_example
     = Inr [node_c, node_d] \<and>
   metrics_map_of metrics_example (metadata_name api_node_c) = None \<and>
   readable pods_example api_node_c \<and>
   cpu_usage node_c = 0 \<and> memory_usage node_c = 0 \<and>
   built_from_descriptor pods_example api_node_c node_c"
proof -
  have n: "metadata_name api_node_c = ''node-c''" "metadata_name api_node_d = ''node-d''"
    by (simp_all add: api_node_c_def api_node_d_def)
  show ?thesis
    using n examples_no_entry examples_readable examples_collected
      node_d_built [of metrics_example]
      missing_metrics_zero_usage
        [of metrics_example api_node_d pods_example "[api_node_c, api_node_d]"
           "[node_c, node_d]"]
    by simp
qed

lemma sample_is_used:
  "node_metrics_of [''node-c'' \<mapsto> [''cpu'' \<mapsto> ''250000000n'', ''memory'' \<mapsto> ''512Mi'']]
     pods_example api_node_c
   = Inr (node_c\<lparr>cpu_usage := 250, memory_usage := 536870912\<rparr>)"
proof -
  have "parse_cpu ''250000000n'' = Inr 250" "parse_memory ''512Mi'' = Inr 536870912"
    by code_simp+
  then show ?thesis
    by (simp add: node_metrics_of_def api_node_c_def node_c_def dict_get_def example_quantities
        pods_example_def or_empty_def)
qed

section \<open>Whitespace around a quantity\<close>

lemma strip_by_padded:
  assumes a: "list_all sp a" and b: "list_all sp b"
  shows "strip_by sp (a @ s @ b) = strip_by sp s"
proof -
  have 1: "dropWhile sp (a @ s @ b) = dropWhile sp (s @ b)"
    using a by (simp add: dropWhile_append2 list_all_iff)
  show ?thesis
  proof (cases "list_all sp s")
    case True
    then have 2: "dropWhile sp (s @ b) = []" and 3: "dropWhile sp s = []"
      using b by (simp_all add: list_all_iff)
    show ?thesis unfolding strip_by_def 1 2 3 by (rule refl)
  next
    case False
    then have "dropWhile sp (s @ b) = dropWhile sp s @ b"
      by (auto simp: list_all_iff dropWhile_append1)
    moreover have "dropWhile sp (rev b @ t) = dropWhile sp t" for t
      using b by (intro dropWhile_append2) (simp add: list_all_iff)
    ultimately show ?thesis
      using 1 by (simp add: strip_by_def)
  qed
qed

lemma parse_memory_trims_whitespace:
  "list_all str_isspace a \<Longrightarrow> list_all str_isspace b \<Longrightarrow>
   parse_memory (a @ s @ b) = parse_memory s"
  by (simp add: parse_memory_def strip_def strip_by_padded)

lemma py_int_trims_whitespace:
  "list_all int_isspace a \<Longrightarrow> list_all int_isspace b \<Longrightarrow> py_int (a @ s @ b) = py_int s"
  by (simp add: py_int_def strip_by_padded)

text \<open>
  C9: quantity parsing is claimed to trim whitespace on both sides before it looks for the
  suffix. \<^verbatim>\<open>parse_memory\<close> does (lemma \<open>parse_memory_trims_whitespace\<close>);
  \<^verbatim>\<open>parse_cpu\<close> does not call \<^verbatim>\<open>strip\<close>. Whitespace in front of a CPU quantity, and
  around one without suffix, is skipped by \<^verbatim>\<open>int()\<close>, but after the suffix it hides the
  suffix: 500m followed by a space raises \<^verbatim>\<open>ValueError\<close>, where 500m is 500.
\<close>

theorem parse_cpu_keeps_trailing_whitespace:
  "parse_cpu ''500m'' = Inr 500 \<and> parse_cpu ''500m '' = Inl ValueError \<and>
   parse_cpu '' 500m'' = Inr 500 \<and> parse_cpu '' 2 '' = Inr 2000 \<and>
   parse_memory ''512Mi'' = Inr 536870912 \<and> parse_memory '' 512Mi '' = Inr 536870912"
  by code_simp

section \<open>What the parsers accept\<close>

lemma scan_digits_error: "scan_digits prev acc b = Inl e \<Longrightarrow> e = ValueError"
  by (induction prev acc b rule: scan_digits.induct) (auto split: if_splits)

lemma case_sum_fails:
  "(case x of Inl e \<Rightarrow> Inl e | Inr v \<Rightarrow> Inr (f v)) = Inl ValueError \<longleftrightarrow> x = Inl ValueError"
  by (cases x) auto

lemma case_sum_error:
  "(case x of Inl e \<Rightarrow> Inl e | Inr v \<Rightarrow> Inr (f v)) = Inl e \<longleftrightarrow> x = Inl e"
  by (cases x) auto

lemma scan_digits_succeeds:
  "(\<exists>v. scan_digits prev acc b = Inr v) \<longleftrightarrow>
     list_all (\<lambda>c. is_digit c \<or> c = CHR ''_'') b \<and> last (prev # b) \<noteq> CHR ''_'' \<and>
     list_all (\<lambda>(x, y). \<not> (x = CHR ''_'' \<and> y = CHR ''_'')) (zip (prev # b) b)"
  by (induction prev acc b rule: scan_digits.induct) (auto simp: is_digit_def)

lemma scan_digits_groups: "(\<exists>v. scan_digits CHR ''_'' 0 b = Inr v) \<longleftrightarrow> digit_groups b"
  unfolding scan_digits_succeeds digit_groups_def by (cases b) auto

lemma scan_digits_fails: "scan_digits CHR ''_'' 0 b = Inl ValueError \<longleftrightarrow> \<not> digit_groups b"
  using scan_digits_groups [of b] scan_digits_error [of "CHR ''_''" 0 b]
  by (cases "scan_digits CHR ''_'' 0 b") auto

lemma py_int_fails: "py_int s = Inl ValueError \<longleftrightarrow> \<not> int_syntax s"
  by (simp add: py_int_def int_syntax_def case_sum_fails scan_digits_fails
      del: scan_digits.simps split: list.splits)

lemma py_int_error: "py_int s = Inl e \<Longrightarrow> e = ValueError"
  by (auto simp: py_int_def case_sum_error simp del: scan_digits.simps
      split: list.splits if_splits dest: scan_digits_error)

lemma py_int_succeeds: "(\<exists>v. py_int s = Inr v) \<longleftrightarrow> int_syntax s"
  using py_int_fails [of s] py_int_error [of s] by (cases "py_int s") auto







section \<open>Claim about malformed quantities\<close>




end
